theory Spec2Isabelle
  imports Complex_Main "HOL-Library.Char_ord" "HOL-Library.List_Lexorder" "HOL-Library.Multiset"
begin

section \<open>Python values\<close>

text \<open>
  The program is a Python script over pandas.  Its strings are modelled as \<^typ>\<open>string\<close>
  (the UTF-8 encoding of the Python text, one \<^typ>\<open>char\<close> per byte), its exceptions as
  values of \<open>error\<close>, and its floats as exact rationals extended with the two infinities
  and NaN: every operation below computes the exact result where IEEE arithmetic would
  round it, keeps the special values of IEEE arithmetic (division by zero gives an
  infinity or NaN, NaN propagates), and has no signed zero and no overflow.
  The whitespace and digit classes are the ASCII ones; the further Unicode whitespace
  and decimal digits that Python's \<open>strip\<close>, \<open>float\<close>, \<open>\s\<close> and \<open>\d\<close> also accept are
  ordinary characters here.
\<close>

datatype error = ValueError | TypeError | OverflowError | IndexError | OSError

datatype fl = Fin rat | PInf | NInf | NaN

datatype pyval = VStr string | VInt int | VFloat fl | VNone

subsection \<open>String methods\<close>

definition py_isspace :: "char \<Rightarrow> bool" where
  "py_isspace c = (let n = (of_char c :: int) in (9 \<le> n \<and> n \<le> 13) \<or> (28 \<le> n \<and> n \<le> 32))"

definition py_isdigit :: "char \<Rightarrow> bool" where
  "py_isdigit c = (let n = (of_char c :: int) in 48 \<le> n \<and> n \<le> 57)"

definition strip :: "string \<Rightarrow> string" where
  "strip s = rev (dropWhile py_isspace (rev (dropWhile py_isspace s)))"

text \<open>\<open>s.replace(old, new)\<close> for a non-empty \<open>old\<close>: the occurrences are replaced from
  the left, and the scan continues after each replaced occurrence.\<close>

function replace :: "string \<Rightarrow> string \<Rightarrow> string \<Rightarrow> string" where
  "replace old new s =
     (if old = [] then s
      else if s = [] then []
      else if take (length old) s = old then new @ replace old new (drop (length old) s)
      else hd s # replace old new (tl s))"
  by pat_completeness auto
termination
  by (relation "measure (\<lambda>(old, new, s). length s)") auto

declare replace.simps [simp del]

subsection \<open>The float constructor on strings\<close>

text \<open>\<open>float(s)\<close> strips whitespace, checks that every underscore stands between two
  digits and removes it, and then reads either a decimal literal (sign, digits, an
  optional point and digits, an optional exponent; at least one digit in the mantissa)
  or, case-insensitively, \<open>inf\<close>, \<open>infinity\<close> or \<open>nan\<close> with an optional sign.  Anything
  left over is a \<open>ValueError\<close>, here \<open>None\<close>.\<close>

fun underscores_ok :: "char \<Rightarrow> string \<Rightarrow> bool" where
  "underscores_ok prev [] = (prev \<noteq> CHR ''_'')"
| "underscores_ok prev (c # cs) =
     ((if c = CHR ''_'' then py_isdigit prev
       else \<not> (prev = CHR ''_'' \<and> \<not> py_isdigit c))
      \<and> underscores_ok c cs)"

definition digit_val :: "char \<Rightarrow> int" where
  "digit_val c = of_char c - 48"

definition digits_val :: "string \<Rightarrow> int" where
  "digits_val ds = foldl (\<lambda>a d. 10 * a + digit_val d) 0 ds"

definition to_lower :: "char \<Rightarrow> char" where
  "to_lower c = (let n = (of_char c :: int) in if 65 \<le> n \<and> n \<le> 90 then char_of (n + 32) else c)"

definition split_sign :: "string \<Rightarrow> bool \<times> string" where
  "split_sign s =
     (case s of
        [] \<Rightarrow> (False, [])
      | c # cs \<Rightarrow> if c = CHR ''-'' then (True, cs) else if c = CHR ''+'' then (False, cs) else (False, s))"

definition parse_inf_or_nan :: "string \<Rightarrow> fl option" where
  "parse_inf_or_nan s =
     (let (neg, r) = split_sign s; w = map to_lower r in
      if w = ''inf'' \<or> w = ''infinity'' then Some (if neg then NInf else PInf)
      else if w = ''nan'' then Some NaN
      else None)"

definition scale10 :: "rat \<Rightarrow> int \<Rightarrow> rat" where
  "scale10 m e = (if 0 \<le> e then m * 10 ^ nat e else m / 10 ^ nat (- e))"

definition parse_exponent :: "string \<Rightarrow> int option" where
  "parse_exponent s =
     (case s of
        [] \<Rightarrow> Some 0
      | c # cs \<Rightarrow>
          if c = CHR ''e'' \<or> c = CHR ''E'' then
            (let (neg, ds) = split_sign cs in
             if ds \<noteq> [] \<and> list_all py_isdigit ds
             then Some (if neg then - digits_val ds else digits_val ds)
             else None)
          else None)"

definition parse_decimal :: "string \<Rightarrow> fl option" where
  "parse_decimal s =
     (let (neg, r) = split_sign s;
          ip = takeWhile py_isdigit r; r1 = dropWhile py_isdigit r;
          has_point = (r1 \<noteq> [] \<and> hd r1 = CHR ''.'');
          fp = (if has_point then takeWhile py_isdigit (tl r1) else []);
          r2 = (if has_point then dropWhile py_isdigit (tl r1) else r1)
      in if ip = [] \<and> fp = [] then parse_inf_or_nan s
         else (case parse_exponent r2 of
                 None \<Rightarrow> None
               | Some e \<Rightarrow>
                   (let m = scale10 (of_int (digits_val (ip @ fp))) (e - int (length fp))
                    in Some (Fin (if neg then - m else m)))))"

definition py_float :: "string \<Rightarrow> fl option" where
  "py_float s =
     (let t = strip s in
      if underscores_ok (CHR 0x00) t then parse_decimal (filter (\<lambda>c. c \<noteq> CHR ''_'') t)
      else None)"

section \<open>Float arithmetic\<close>

text \<open>The arithmetic of numpy on float columns: no operation raises, a division by zero
  gives an infinity or NaN, and every comparison with NaN is false.\<close>

fun fl_neg :: "fl \<Rightarrow> fl" where
  "fl_neg (Fin a) = Fin (- a)"
| "fl_neg PInf = NInf"
| "fl_neg NInf = PInf"
| "fl_neg NaN = NaN"

fun fl_add :: "fl \<Rightarrow> fl \<Rightarrow> fl" where
  "fl_add (Fin a) (Fin b) = Fin (a + b)"
| "fl_add NaN y = NaN"
| "fl_add x NaN = NaN"
| "fl_add PInf NInf = NaN"
| "fl_add NInf PInf = NaN"
| "fl_add PInf y = PInf"
| "fl_add NInf y = NInf"
| "fl_add (Fin a) y = y"

definition fl_sub :: "fl \<Rightarrow> fl \<Rightarrow> fl" where
  "fl_sub x y = fl_add x (fl_neg y)"

text \<open>The sign of a value that is not NaN: \<open>-1\<close>, \<open>0\<close> or \<open>1\<close>.\<close>

fun fl_sgn :: "fl \<Rightarrow> int" where
  "fl_sgn (Fin a) = (if a < 0 then - 1 else if a = 0 then 0 else 1)"
| "fl_sgn PInf = 1"
| "fl_sgn NInf = - 1"
| "fl_sgn NaN = 0"

definition inf_of_sign :: "int \<Rightarrow> fl" where
  "inf_of_sign s = (if s < 0 then NInf else if s = 0 then NaN else PInf)"

fun fl_mul :: "fl \<Rightarrow> fl \<Rightarrow> fl" where
  "fl_mul (Fin a) (Fin b) = Fin (a * b)"
| "fl_mul NaN y = NaN"
| "fl_mul x NaN = NaN"
| "fl_mul x y = inf_of_sign (fl_sgn x * fl_sgn y)"

fun fl_div :: "fl \<Rightarrow> fl \<Rightarrow> fl" where
  "fl_div (Fin a) (Fin b) = (if b = 0 then inf_of_sign (fl_sgn (Fin a)) else Fin (a / b))"
| "fl_div NaN y = NaN"
| "fl_div x NaN = NaN"
| "fl_div (Fin a) y = Fin 0"
| "fl_div x (Fin b) = inf_of_sign (fl_sgn x * (if b < 0 then - 1 else 1))"
| "fl_div x y = NaN"

fun fl_less :: "fl \<Rightarrow> fl \<Rightarrow> bool" where
  "fl_less (Fin a) (Fin b) = (a < b)"
| "fl_less NaN y = False"
| "fl_less x NaN = False"
| "fl_less x NInf = False"
| "fl_less PInf y = False"
| "fl_less x y = True"

definition isna :: "fl \<Rightarrow> bool" where
  "isna x = (x = NaN)"

text \<open>\<open>fillna\<close> on one cell.\<close>

definition fillna :: "fl \<Rightarrow> fl \<Rightarrow> fl" where
  "fillna x v = (if isna x then v else x)"

text \<open>\<open>Series.sum()\<close>: the missing values are skipped, and the sum of no value is 0.\<close>

definition fl_sum :: "fl list \<Rightarrow> fl" where
  "fl_sum xs = foldl fl_add (Fin 0) (filter (\<lambda>x. \<not> isna x) xs)"

text \<open>The finite values, and the rational a finite value stands for.\<close>

definition finite_fl :: "fl \<Rightarrow> bool" where
  "finite_fl x = (case x of Fin q \<Rightarrow> True | _ \<Rightarrow> False)"

definition fin_val :: "fl \<Rightarrow> rat" where
  "fin_val x = (case x of Fin q \<Rightarrow> q | _ \<Rightarrow> 0)"

section \<open>Text outside ASCII\<close>

text \<open>The letters and signs of the program's texts that are outside ASCII, each as its
  UTF-8 encoding.\<close>

definition a_acute :: string where
  "a_acute = [CHR 0xC3, CHR 0xA1]"

definition a_tilde :: string where
  "a_tilde = [CHR 0xC3, CHR 0xA3]"

definition a_grave :: string where
  "a_grave = [CHR 0xC3, CHR 0xA0]"

definition c_cedilla :: string where
  "c_cedilla = [CHR 0xC3, CHR 0xA7]"

definition e_acute :: string where
  "e_acute = [CHR 0xC3, CHR 0xA9]"

definition e_circ :: string where
  "e_circ = [CHR 0xC3, CHR 0xAA]"

definition i_acute :: string where
  "i_acute = [CHR 0xC3, CHR 0xAD]"

definition o_acute :: string where
  "o_acute = [CHR 0xC3, CHR 0xB3]"

definition o_tilde :: string where
  "o_tilde = [CHR 0xC3, CHR 0xB5]"

definition o_circ :: string where
  "o_circ = [CHR 0xC3, CHR 0xB4]"

definition u_acute :: string where
  "u_acute = [CHR 0xC3, CHR 0xBA]"

definition U_acute :: string where
  "U_acute = [CHR 0xC3, CHR 0x9A]"

definition bar_chart :: string where
  "bar_chart = [CHR 0xF0, CHR 0x9F, CHR 0x93, CHR 0x8A]"

definition thumbs_up :: string where
  "thumbs_up = [CHR 0xF0, CHR 0x9F, CHR 0x91, CHR 0x8D]"

definition warning_sign :: string where
  "warning_sign = [CHR 0xE2, CHR 0x9A, CHR 0xA0]"

definition variation_selector :: string where
  "variation_selector = [CHR 0xEF, CHR 0xB8, CHR 0x8F]"

definition light_bulb :: string where
  "light_bulb = [CHR 0xF0, CHR 0x9F, CHR 0x92, CHR 0xA1]"

section \<open>The monetary parser\<close>

text \<open>\<open>float(x)\<close> on a value that is not a string: an integer converts unless it is
  beyond the range of a double (\<open>OverflowError\<close>), a float is returned as it is, and
  \<open>None\<close> is a \<open>TypeError\<close>.  These calls stand outside the \<open>try\<close> of \<open>clean_value\<close>.\<close>

definition float_of_number :: "pyval \<Rightarrow> error + fl" where
  "float_of_number v =
     (case v of
        VInt i \<Rightarrow> if \<bar>i\<bar> < 2 ^ 1024 - 2 ^ 970 then Inr (Fin (of_int i)) else Inl OverflowError
      | VFloat x \<Rightarrow> Inr x
      | VNone \<Rightarrow> Inl TypeError
      | VStr s \<Rightarrow> (case py_float s of Some x \<Rightarrow> Inr x | None \<Rightarrow> Inl ValueError))"

definition clean_text :: "string \<Rightarrow> string" where
  "clean_text s = replace '','' ''.'' (replace ''.'' '''' (strip (replace ''R$'' '''' s)))"

definition clean_value :: "pyval \<Rightarrow> error + fl" where
  "clean_value text_value =
     (case text_value of
        VStr s \<Rightarrow>
          (case float_of_number (VStr (clean_text s)) of
             Inr x \<Rightarrow> Inr x
           | Inl ValueError \<Rightarrow> Inr (Fin 0)
           | Inl TypeError \<Rightarrow> Inr (Fin 0)
           | Inl e \<Rightarrow> Inl e)
      | _ \<Rightarrow> float_of_number text_value)"

section \<open>The portfolio image extractor\<close>

subsection \<open>Regular expressions\<close>

text \<open>
  The fragment of Python's \<open>re\<close> that \<open>line_regex\<close> uses: character classes, sequences,
  greedy repetition of a class and capturing groups.  \<open>rx_match r s g\<close> lists, in the
  order in which the backtracking matcher of \<open>re\<close> tries them, the ways in which \<open>r\<close>
  matches a prefix of \<open>s\<close>: each is the text left over together with the groups captured
  so far.  A greedy repetition offers its longest match first.  \<open>rx_search\<close> is
  \<open>re.search\<close>: the first way at the leftmost position that has one.
\<close>

datatype rx = Cls "char \<Rightarrow> bool" | Seq rx rx | Star "char \<Rightarrow> bool" | Grp rx

fun rx_match :: "rx \<Rightarrow> string \<Rightarrow> string list \<Rightarrow> (string \<times> string list) list" where
  "rx_match (Cls p) s g = (case s of [] \<Rightarrow> [] | c # cs \<Rightarrow> if p c then [(cs, g)] else [])"
| "rx_match (Star p) s g =
     (case s of
        [] \<Rightarrow> [([], g)]
      | c # cs \<Rightarrow> (if p c then rx_match (Star p) cs g else []) @ [(s, g)])"
| "rx_match (Seq a b) s g = concat (map (\<lambda>(s', g'). rx_match b s' g') (rx_match a s g))"
| "rx_match (Grp r) s g =
     map (\<lambda>(s', g'). (s', g' @ [take (length s - length s') s])) (rx_match r s g)"

fun rx_search :: "rx \<Rightarrow> string \<Rightarrow> string list option" where
  "rx_search r [] = (case rx_match r [] [] of [] \<Rightarrow> None | (_, g) # _ \<Rightarrow> Some g)"
| "rx_search r (c # cs) =
     (case rx_match r (c # cs) [] of [] \<Rightarrow> rx_search r cs | (_, g) # _ \<Rightarrow> Some g)"

definition Plus :: "(char \<Rightarrow> bool) \<Rightarrow> rx" where
  "Plus p = Seq (Cls p) (Star p)"

definition Lit :: "char \<Rightarrow> rx" where
  "Lit x = Cls (\<lambda>c. c = x)"

definition upper_or_digit :: "char \<Rightarrow> bool" where
  "upper_or_digit c = (let n = (of_char c :: int) in (65 \<le> n \<and> n \<le> 90) \<or> (48 \<le> n \<and> n \<le> 57))"

definition any_char :: "char \<Rightarrow> bool" where
  "any_char c = (c \<noteq> CHR ''\<newline>'')"

definition amount_char :: "char \<Rightarrow> bool" where
  "amount_char c = (py_isdigit c \<or> c = CHR '','' \<or> c = CHR ''.'')"

text \<open>The currency amount \<open>R\$\s*[\d,\.]+\<close>.\<close>

definition amount :: rx where
  "amount = Seq (Lit CHR ''R'') (Seq (Lit CHR ''$'') (Seq (Star py_isspace) (Plus amount_char)))"

text \<open>\<open>([A-Z0-9]+)\s+.*\s+(R\$\s*[\d,\.]+)\s+(R\$\s*[\d,\.]+)\<close>\<close>

definition line_regex :: rx where
  "line_regex =
     Seq (Grp (Plus upper_or_digit))
       (Seq (Plus py_isspace)
         (Seq (Star any_char)
           (Seq (Plus py_isspace)
             (Seq (Grp amount) (Seq (Plus py_isspace) (Grp amount))))))"

subsection \<open>Rows of the holdings table\<close>

record holding =
  h_ticker :: string
  h_ultima_cotacao :: fl
  h_posicao :: fl

definition denylist :: "string list" where
  "denylist = [''Ativo'', ''AURE3S'', ''BBAS3S'']"

text \<open>The body of the loop over the lines: the row the line adds to \<open>portfolio_data\<close>,
  if any.\<close>

definition parse_line :: "string \<Rightarrow> error + holding option" where
  "parse_line line =
     (case rx_search line_regex line of
        Some [ativo, ultima_cotacao, posicao] \<Rightarrow>
          if ativo \<notin> set denylist then
            (case clean_value (VStr ultima_cotacao) of
               Inl e \<Rightarrow> Inl e
             | Inr q \<Rightarrow>
                 (case clean_value (VStr posicao) of
                    Inl e \<Rightarrow> Inl e
                  | Inr p \<Rightarrow> Inr (Some \<lparr>h_ticker = ativo, h_ultima_cotacao = q, h_posicao = p\<rparr>)))
          else Inr None
      | _ \<Rightarrow> Inr None)"

fun extract_rows :: "string list \<Rightarrow> holding list \<Rightarrow> error + holding list" where
  "extract_rows [] portfolio_data = Inr portfolio_data"
| "extract_rows (line # lines) portfolio_data =
     (case parse_line line of
        Inl e \<Rightarrow> Inl e
      | Inr None \<Rightarrow> extract_rows lines portfolio_data
      | Inr (Some row) \<Rightarrow> extract_rows lines (portfolio_data @ [row]))"

text \<open>\<open>text.split('\n')\<close>\<close>

fun split_lines :: "string \<Rightarrow> string list" where
  "split_lines [] = [[]]"
| "split_lines (c # cs) =
     (if c = CHR ''\<newline>'' then [] # split_lines cs
      else (case split_lines cs of [] \<Rightarrow> [[c]] | l # ls \<Rightarrow> (c # l) # ls))"

text \<open>
  The function itself.  Opening the image and the OCR are outside the program: their
  outcome, the recognised text or the exception raised, is the argument.  The result is
  the table (no rows for \<open>pd.DataFrame()\<close>) and the message shown with \<open>st.error\<close>, if any.
\<close>

datatype notice = NoDataExtracted | ProcessingFailed error

definition process_portfolio_image :: "error + string \<Rightarrow> holding list \<times> notice option" where
  "process_portfolio_image ocr =
     (case ocr of
        Inl e \<Rightarrow> ([], Some (ProcessingFailed e))
      | Inr text \<Rightarrow>
          (case extract_rows (split_lines (strip text)) [] of
             Inl e \<Rightarrow> ([], Some (ProcessingFailed e))
           | Inr portfolio_data \<Rightarrow>
               if portfolio_data = [] then ([], Some NoDataExtracted)
               else (portfolio_data, None)))"

section \<open>The recommendation table loader\<close>

text \<open>
  A \<open>DataFrame\<close> is the list of its columns, each a name with the cells of the column.
  A cell is a text or a number; a missing cell is the number NaN, as in pandas.
  The constructor \<open>pd.DataFrame(data)\<close> on a dictionary of lists raises \<open>ValueError\<close>
  ("All arrays must be of the same length") unless the lists have one length.
\<close>

datatype cell = CStr string | CNum fl

type_synonym frame = "(string \<times> cell list) list"

definition pd_DataFrame :: "(string \<times> cell list) list \<Rightarrow> error + frame" where
  "pd_DataFrame data =
     (case map (\<lambda>(name, cells). length cells) data of
        [] \<Rightarrow> Inr data
      | n # ns \<Rightarrow> if list_all (\<lambda>m. m = n) ns then Inr data else Inl ValueError)"

text \<open>
  The uploaded file is either not readable as a workbook (\<open>read_excel\<close> raises) or a
  workbook, the list of its sheets by name; \<open>read_excel\<close> raises \<open>ValueError\<close> for a
  sheet name the workbook does not have.
\<close>

datatype workbook = Unreadable error | Workbook "(string \<times> frame) list"

definition pd_read_excel :: "workbook \<Rightarrow> string \<Rightarrow> error + frame" where
  "pd_read_excel excel_file sheet_name =
     (case excel_file of
        Unreadable e \<Rightarrow> Inl e
      | Workbook sheets \<Rightarrow>
          (case map_of sheets sheet_name of None \<Rightarrow> Inl ValueError | Some df \<Rightarrow> Inr df))"

definition columns :: "frame \<Rightarrow> string list" where
  "columns df = map fst df"

definition expected_cols :: "string list" where
  "expected_cols = [''Ticker'', ''Empresa'', ''Setor'', ''Recomenda'' @ c_cedilla @ a_tilde @ ''o'',
     ''Pre'' @ c_cedilla @ ''o Alvo (R$)'']"

definition sheet_recomendacoes :: string where
  "sheet_recomendacoes = ''Recomenda'' @ c_cedilla @ o_tilde @ ''es''"

text \<open>The dictionary \<open>data\<close> of the \<open>except\<close> branch, as the source has it.\<close>

definition fallback_data :: "(string \<times> cell list) list" where
  "fallback_data =
     [(''Ticker'',
       [CStr ''AURE3'', CStr ''BBAS3'', CStr ''BBDC4'', CStr ''CPLE6'', CStr ''CXSE3'',
        CStr ''ITSA4'', CStr ''PETR4'', CStr ''PRIO3'', CStr ''VALE3'', CStr ''CSNA3'',
        CStr ''WEGE3'', CStr ''SIMH3'', CStr ''HASH11'', CStr ''IVVB11'']),
      (''Empresa'',
       [CStr ''Auren Energia'', CStr ''Banco do Brasil'', CStr ''Bradesco'',
        CStr ''Copel'', CStr ''Caixa Seguridade'', CStr (''Ita'' @ u_acute @ ''sa''),
        CStr ''Petrobras'', CStr ''Prio'', CStr ''Vale'', CStr ''CSN'', CStr ''WEG'',
        CStr ''Simpar'', CStr ''Hashdex Nasdaq Crypto'', CStr ''iShares S&P 500'']),
      (''Setor'',
       [CStr (''Utilities El'' @ e_acute @ ''tricas''), CStr ''Financeiro'',
        CStr ''Financeiro'', CStr (''Utilities El'' @ e_acute @ ''tricas''),
        CStr ''Financeiro'', CStr (''Petr'' @ o_acute @ ''leo e G'' @ a_acute @ ''s''),
        CStr (''Petr'' @ o_acute @ ''leo e G'' @ a_acute @ ''s''),
        CStr (''Minera'' @ c_cedilla @ a_tilde @ ''o''),
        CStr (''Minera'' @ c_cedilla @ a_tilde @ ''o''), CStr ''Bens de Capital'',
        CStr (''Consumo C'' @ i_acute @ ''clico''), CStr ''Ativos Digitais'',
        CStr ''Internacional (ETF)'']),
      (''Recomenda'' @ c_cedilla @ a_tilde @ ''o'',
       [CStr ''Compra'', CStr ''Compra'', CStr ''Neutro'', CStr ''Compra'',
        CStr ''Compra'', CStr ''Compra'', CStr ''Compra'', CStr ''Compra'',
        CStr ''Compra'', CStr ''Venda'', CStr ''Neutro'', CStr ''Compra'', CStr ''N/A'',
        CStr ''N/A'']),
      (''Pre'' @ c_cedilla @ ''o Alvo (R$)'',
       [CNum (Fin 15), CNum (Fin 30), CNum (Fin 18), CNum (Fin 14), CNum (Fin 16),
        CNum (Fin (27 / 2)), CNum (Fin 40), CNum (Fin 60), CNum (Fin 80), CNum (Fin 12),
        CNum (Fin 40), CNum (Fin 12), CNum (Fin 100), CNum (Fin 450)])]"

text \<open>The \<open>try\<close> block: the sheet as read, or the exception raised by \<open>read_excel\<close> or by
  the check of the columns.\<close>

definition read_recommendations :: "workbook \<Rightarrow> error + frame" where
  "read_recommendations excel_file =
     (case pd_read_excel excel_file sheet_recomendacoes of
        Inl e \<Rightarrow> Inl e
      | Inr reco_df \<Rightarrow>
          if \<not> list_all (\<lambda>col. col \<in> set (columns reco_df)) expected_cols then Inl ValueError
          else Inr reco_df)"

text \<open>The function: the \<open>except Exception\<close> branch builds the table of the fallback
  data, and an exception raised there leaves the function.\<close>

definition load_recommendations_from_excel :: "workbook \<Rightarrow> error + frame" where
  "load_recommendations_from_excel excel_file =
     (case read_recommendations excel_file of
        Inr reco_df \<Rightarrow> Inr reco_df
      | Inl e \<Rightarrow> pd_DataFrame fallback_data)"

section \<open>The analysis merger\<close>

text \<open>
  The rows of the recommendation table, with the columns at their types: the ticker
  is a text, the company, the sector and the recommendation label are texts or missing,
  and the target price is a number, NaN when missing.
\<close>

record reco =
  r_ticker :: string
  r_empresa :: "string option"
  r_setor :: "string option"
  r_recomendacao :: "string option"
  r_preco_alvo :: fl

text \<open>The rows of \<open>analysis_df\<close>: the columns of the holdings table, the columns of
  the recommendation table, and \<open>Potencial (%)\<close>.\<close>

record analysis =
  a_ticker :: string
  a_ultima_cotacao :: fl
  a_posicao :: fl
  a_empresa :: "string option"
  a_setor :: "string option"
  a_recomendacao :: "string option"
  a_preco_alvo :: fl
  a_potencial :: fl

definition nao_classificado :: string where
  "nao_classificado = ''N'' @ a_tilde @ ''o Classificado''"

text \<open>
  One row of \<open>pd.merge(portfolio_df, reco_df, on='Ticker', how='left')\<close>: the holding with
  a matching row of the recommendation table, or with missing values when there is
  none.  The column \<open>Potencial (%)\<close> does not exist yet; it is NaN until it is assigned.
\<close>

definition join_row :: "holding \<Rightarrow> reco option \<Rightarrow> analysis" where
  "join_row h m =
     \<lparr>a_ticker = h_ticker h, a_ultima_cotacao = h_ultima_cotacao h, a_posicao = h_posicao h,
      a_empresa = (case m of None \<Rightarrow> None | Some r \<Rightarrow> r_empresa r),
      a_setor = (case m of None \<Rightarrow> None | Some r \<Rightarrow> r_setor r),
      a_recomendacao = (case m of None \<Rightarrow> None | Some r \<Rightarrow> r_recomendacao r),
      a_preco_alvo = (case m of None \<Rightarrow> NaN | Some r \<Rightarrow> r_preco_alvo r),
      a_potencial = NaN\<rparr>"

text \<open>The left join: the rows of the left table in their order, each once for every
  row of the right table with its ticker, and once when there is none.\<close>

definition pd_merge_left :: "holding list \<Rightarrow> reco list \<Rightarrow> analysis list" where
  "pd_merge_left portfolio_df reco_df =
     concat (map (\<lambda>h. case filter (\<lambda>r. r_ticker r = h_ticker h) reco_df of
                         [] \<Rightarrow> [join_row h None]
                       | ms \<Rightarrow> map (\<lambda>r. join_row h (Some r)) ms) portfolio_df)"

text \<open>The assignments that follow the merge, each on every row.\<close>

definition fill_setor :: "analysis \<Rightarrow> analysis" where
  "fill_setor a = a\<lparr>a_setor := Some (case a_setor a of None \<Rightarrow> nao_classificado | Some s \<Rightarrow> s)\<rparr>"

definition fill_preco_alvo :: "analysis \<Rightarrow> analysis" where
  "fill_preco_alvo a = a\<lparr>a_preco_alvo := fillna (a_preco_alvo a) (Fin 0)\<rparr>"

definition set_potencial :: "analysis \<Rightarrow> analysis" where
  "set_potencial a =
     a\<lparr>a_potencial :=
         fl_mul (fl_sub (fl_div (a_preco_alvo a) (a_ultima_cotacao a)) (Fin 1)) (Fin 100)\<rparr>"

definition where_cotacao_positive :: "analysis \<Rightarrow> analysis" where
  "where_cotacao_positive a =
     a\<lparr>a_potencial := (if fl_less (Fin 0) (a_ultima_cotacao a) then a_potencial a else Fin 0)\<rparr>"

definition fill_potencial :: "analysis \<Rightarrow> analysis" where
  "fill_potencial a = a\<lparr>a_potencial := fillna (a_potencial a) (Fin 0)\<rparr>"

definition analysis_df :: "holding list \<Rightarrow> reco list \<Rightarrow> analysis list" where
  "analysis_df portfolio_df reco_df =
     map fill_potencial
       (map where_cotacao_positive
         (map set_potencial
           (map fill_preco_alvo
             (map fill_setor (pd_merge_left portfolio_df reco_df)))))"

text \<open>The five assignments in their order, on one row.\<close>

definition after_merge :: "analysis \<Rightarrow> analysis" where
  "after_merge a =
     fill_potencial (where_cotacao_positive (set_potencial (fill_preco_alvo (fill_setor a))))"

text \<open>The columns that a row of \<open>analysis_df\<close> takes from the holdings table.\<close>

definition holding_columns :: "analysis \<Rightarrow> string \<times> fl \<times> fl" where
  "holding_columns a = (a_ticker a, a_ultima_cotacao a, a_posicao a)"

definition holding_triple :: "holding \<Rightarrow> string \<times> fl \<times> fl" where
  "holding_triple h = (h_ticker h, h_ultima_cotacao h, h_posicao h)"

text \<open>
  The sector allocation of the report: \<open>groupby('Setor')\<close> keeps the rows that have a
  sector and lists the sectors in ascending order, each with the sum of its positions;
  \<open>Percentual\<close> is that sum over the total of all positions, times 100.
\<close>

definition total_portfolio_value :: "analysis list \<Rightarrow> fl" where
  "total_portfolio_value df = fl_sum (map a_posicao df)"

definition setor_keys :: "analysis list \<Rightarrow> string list" where
  "setor_keys df =
     sort (remdups (concat (map (\<lambda>a. case a_setor a of None \<Rightarrow> [] | Some s \<Rightarrow> [s]) df)))"

definition groupby_setor_sum :: "analysis list \<Rightarrow> (string \<times> fl) list" where
  "groupby_setor_sum df =
     map (\<lambda>s. (s, fl_sum (map a_posicao (filter (\<lambda>a. a_setor a = Some s) df))))
       (setor_keys df)"

definition sector_allocation :: "analysis list \<Rightarrow> (string \<times> fl \<times> fl) list" where
  "sector_allocation df =
     map (\<lambda>(s, v). (s, v, fl_mul (fl_div v (total_portfolio_value df)) (Fin 100)))
       (groupby_setor_sum df)"

section \<open>The narrative generator\<close>

subsection \<open>Sorting by a column\<close>

text \<open>
  \<open>sort_values(ascending=False)\<close>: pandas sets the rows without a value aside, reverses
  the others, sorts them in ascending order, reverses the result and puts the rows
  without a value last.  The ascending sort is modelled as a stable one, so rows with
  equal values keep their order; pandas leaves the order of such rows to the sorting
  routine of numpy.
\<close>

fun insort_fl :: "('a \<Rightarrow> fl) \<Rightarrow> 'a \<Rightarrow> 'a list \<Rightarrow> 'a list" where
  "insort_fl k x [] = [x]"
| "insort_fl k x (y # ys) = (if fl_less (k y) (k x) then y # insort_fl k x ys else x # y # ys)"

definition argsort_stable :: "('a \<Rightarrow> fl) \<Rightarrow> 'a list \<Rightarrow> 'a list" where
  "argsort_stable k xs = foldr (insort_fl k) xs []"

definition sort_values_desc :: "('a \<Rightarrow> fl) \<Rightarrow> 'a list \<Rightarrow> 'a list" where
  "sort_values_desc k xs =
     rev (argsort_stable k (rev (filter (\<lambda>x. \<not> isna (k x)) xs))) @ filter (\<lambda>x. isna (k x)) xs"

subsection \<open>Formatting a float\<close>

text \<open>
  \<open>format(x, '.Nf')\<close>: the sign, the integer part, and \<open>N\<close> decimals, rounded half to
  even; \<open>inf\<close>, \<open>-inf\<close> and \<open>nan\<close> for the special values.  The rounding is that of the
  exact value, where Python rounds the double nearest to it.
\<close>

definition round_half_even :: "rat \<Rightarrow> int" where
  "round_half_even x =
     (let f = \<lfloor>x\<rfloor>; r = x - of_int f in
      if r < 1 / 2 then f else if 1 / 2 < r then f + 1 else if even f then f else f + 1)"

function digits_of :: "int \<Rightarrow> string" where
  "digits_of n =
     (if n < 10 then [char_of (48 + n)] else digits_of (n div 10) @ [char_of (48 + n mod 10)])"
  by pat_completeness auto
termination
  by (relation "measure nat") auto

declare digits_of.simps [simp del]

definition format_fixed :: "nat \<Rightarrow> fl \<Rightarrow> string" where
  "format_fixed d x =
     (case x of
        NaN \<Rightarrow> ''nan''
      | PInf \<Rightarrow> ''inf''
      | NInf \<Rightarrow> ''-inf''
      | Fin q \<Rightarrow>
          (let n = round_half_even (\<bar>q\<bar> * 10 ^ d);
               ip = digits_of (n div 10 ^ d);
               fp = digits_of (n mod 10 ^ d)
           in (if q < 0 then ''-'' else []) @ ip @
              (if d = 0 then [] else ''.'' @ replicate (d - length fp) CHR ''0'' @ fp)))"

text \<open>A text column in an f-string: the text, or \<open>nan\<close> for a missing value.\<close>

definition str_of_setor :: "string option \<Rightarrow> string" where
  "str_of_setor s = (case s of None \<Rightarrow> ''nan'' | Some t \<Rightarrow> t)"

subsection \<open>The sections of the text\<close>

definition greeting :: string where
  "greeting =
     ''Ol'' @ a_acute @ ''! Tudo bem?\<newline>\<newline>'' @ ''Fiz uma an'' @ a_acute @
     ''lise da sua carteira de investimentos com base nas nossas recomenda'' @ c_cedilla @
     o_tilde @ ''es mais recentes e na aloca'' @ c_cedilla @ a_tilde @
     ''o atual. Seguem os principais pontos:\<newline>\<newline>''"

text \<open>The percentages per sector, the sectors by descending sum of their positions.\<close>

definition sector_percent :: "analysis list \<Rightarrow> (string \<times> fl) list" where
  "sector_percent df =
     (let total_value = fl_sum (map a_posicao df);
          sector_allocation = sort_values_desc snd (groupby_setor_sum df)
      in map (\<lambda>(s, v). (s, fl_mul (fl_div v total_value) (Fin 100))) sector_allocation)"

definition top_sectors :: "analysis list \<Rightarrow> (string \<times> fl) list" where
  "top_sectors df = take 3 (sector_percent df)"

definition allocation_header :: string where
  "allocation_header =
     bar_chart @ '' **Aloca'' @ c_cedilla @ a_tilde @ ''o Setorial:**\<newline>''"

definition sector_line :: "string \<times> fl \<Rightarrow> string" where
  "sector_line sp = ''- **'' @ fst sp @ '':** '' @ format_fixed 1 (snd sp) @ ''%\<newline>''"

definition concentration_remark :: "string \<Rightarrow> string" where
  "concentration_remark sector =
     ''\<newline>Sua carteira apresenta uma concentra'' @ c_cedilla @ a_tilde @
     ''o um pouco maior no setor de **'' @ sector @ ''**. Podemos avaliar estrat'' @ e_acute @
     ''gias para diversificar e mitigar riscos, se estiver de acordo com seu '' @
     ''perfil.\<newline>''"

text \<open>The test \<open>top_sectors.iloc[0] > 35\<close> and the remark it adds; \<open>iloc[0]\<close> raises
  \<open>IndexError\<close> when there is no sector.\<close>

definition concentration_part :: "(string \<times> fl) list \<Rightarrow> error + string" where
  "concentration_part tops =
     (case tops of
        [] \<Rightarrow> Inl IndexError
      | (sector, percent) # _ \<Rightarrow>
          Inr (if fl_less (Fin 35) percent then concentration_remark sector else []))"

definition compra_df :: "analysis list \<Rightarrow> analysis list" where
  "compra_df df =
     sort_values_desc a_potencial (filter (\<lambda>a. a_recomendacao a = Some ''Compra'') df)"

definition buy_header :: string where
  "buy_header =
     thumbs_up @ '' **Pontos Fortes e Oportunidades (Recomenda'' @ c_cedilla @ a_tilde @
     ''o de Compra):**\<newline>''"

definition buy_line :: "analysis \<Rightarrow> string" where
  "buy_line row =
     ''- **'' @ a_ticker row @ '' ('' @ str_of_setor (a_setor row) @ '')'' @
     '':** Mantemos uma vis'' @ a_tilde @
     ''o positiva para o ativo, com um potencial de valoriza'' @ c_cedilla @ a_tilde @
     ''o de **'' @ format_fixed 2 (a_potencial row) @ ''%** em rela'' @ c_cedilla @ a_tilde @
     ''o ao nosso pre'' @ c_cedilla @ ''o-alvo de R$ '' @ format_fixed 2 (a_preco_alvo row) @
     ''.\<newline>''"

definition buy_block :: "analysis list \<Rightarrow> string" where
  "buy_block df =
     (if compra_df df \<noteq> [] then
        buy_header @
        concat (map (\<lambda>row. if fl_less (Fin 0) (a_potencial row) then buy_line row else [])
                  (compra_df df))
      else [])"

text \<open>The rows of \<open>compra_df\<close> for which the loop adds a line.\<close>

definition printed_rows :: "analysis list \<Rightarrow> analysis list" where
  "printed_rows df = filter (\<lambda>row. fl_less (Fin 0) (a_potencial row)) (compra_df df)"

definition reavaliar_df :: "analysis list \<Rightarrow> analysis list" where
  "reavaliar_df df =
     filter (\<lambda>a. a_recomendacao a = Some ''Neutro'' \<or> a_recomendacao a = Some ''Venda'') df"

definition attention_header :: string where
  "attention_header =
     warning_sign @ variation_selector @ '' **Pontos de Aten'' @ c_cedilla @ a_tilde @
     ''o (Recomenda'' @ c_cedilla @ a_tilde @ ''o Neutra ou Venda):**\<newline>''"

definition attention_line :: "analysis \<Rightarrow> string" where
  "attention_line row =
     ''- **'' @ a_ticker row @ '' ('' @ str_of_setor (a_setor row) @ '')'' @
     '':** Nossa recomenda'' @ c_cedilla @ a_tilde @ ''o atual '' @ e_acute @ '' **'' @
     str_of_setor (a_recomendacao row) @
     ''**. Seria interessante conversarmos sobre a possibilidade de realocar '' @
     ''essa posi'' @ c_cedilla @ a_tilde @
     ''o para ativos com maior potencial de crescimento no setor ou em '' @
     ''outros setores estrat'' @ e_acute @ ''gicos.\<newline>''"

definition attention_block :: "analysis list \<Rightarrow> string" where
  "attention_block df =
     (if reavaliar_df df \<noteq> [] then attention_header @ concat (map attention_line (reavaliar_df df))
      else [])"

definition closing :: string where
  "closing =
     light_bulb @ '' **Pr'' @ o_acute @ ''ximos Passos:**\<newline>'' @ ''Com base nesta an'' @
     a_acute @ ''lise, sugiro agendarmos uma conversa para discutirmos esses pontos e '' @
     ''alinharmos a estrat'' @ e_acute @
     ''gia da sua carteira com seus objetivos e nosso cen'' @ a_acute @
     ''rio de mercado.\<newline>\<newline>'' @ ''Qualquer d'' @ u_acute @ ''vida, estou '' @
     a_grave @ '' disposi'' @ c_cedilla @ a_tilde @ ''o.\<newline>\<newline>'' @ ''Abra'' @
     c_cedilla @ ''o!''"

text \<open>The text up to the place of the concentration remark, and the text after it.\<close>

definition allocation_section :: "analysis list \<Rightarrow> string" where
  "allocation_section df =
     greeting @ allocation_header @ concat (map sector_line (top_sectors df))"

definition remaining_sections :: "analysis list \<Rightarrow> string" where
  "remaining_sections df =
     ''\<newline>'' @ buy_block df @ ''\<newline>'' @ attention_block df @ ''\<newline>'' @ closing"

definition generate_recommendation_text :: "analysis list \<Rightarrow> error + string" where
  "generate_recommendation_text df =
     (case concentration_part (top_sectors df) of
        Inl e \<Rightarrow> Inl e
      | Inr remark \<Rightarrow> Inr (allocation_section df @ remark @ remaining_sections df))"

section \<open>Example tables\<close>

text \<open>Rows of small tables, used to run the definitions on concrete inputs.\<close>

definition example_holding_A :: holding where
  "example_holding_A = \<lparr>h_ticker = ''A'', h_ultima_cotacao = Fin 5, h_posicao = Fin 1000\<rparr>"

definition example_reco_A :: reco where
  "example_reco_A =
     \<lparr>r_ticker = ''A'', r_empresa = Some ''Alfa'', r_setor = Some ''X'',
      r_recomendacao = Some ''Compra'', r_preco_alvo = Fin 10\<rparr>"

definition example_row_A :: analysis where
  "example_row_A =
     \<lparr>a_ticker = ''A'', a_ultima_cotacao = Fin 5, a_posicao = Fin 1000,
      a_empresa = Some ''Alfa'', a_setor = Some ''X'', a_recomendacao = Some ''Compra'',
      a_preco_alvo = Fin 10, a_potencial = Fin 100\<rparr>"

definition example_reco_B :: reco where
  "example_reco_B =
     \<lparr>r_ticker = ''B'', r_empresa = Some ''Beta'', r_setor = Some ''Y'',
      r_recomendacao = Some ''Neutro'', r_preco_alvo = Fin 20\<rparr>"

definition example_holding_B :: holding where
  "example_holding_B = \<lparr>h_ticker = ''B'', h_ultima_cotacao = Fin 5, h_posicao = Fin 3000\<rparr>"

definition example_row_B :: analysis where
  "example_row_B =
     \<lparr>a_ticker = ''B'', a_ultima_cotacao = Fin 5, a_posicao = Fin 3000,
      a_empresa = Some ''Beta'', a_setor = Some ''Y'', a_recomendacao = Some ''Neutro'',
      a_preco_alvo = Fin 20, a_potencial = Fin 300\<rparr>"

definition example_row_1 :: analysis where
  "example_row_1 =
     \<lparr>a_ticker = ''AAA3'', a_ultima_cotacao = Fin 5, a_posicao = Fin 400,
      a_empresa = Some ''Alfa'', a_setor = Some ''X'', a_recomendacao = Some ''Compra'',
      a_preco_alvo = Fin (27 / 2), a_potencial = Fin 170\<rparr>"

definition example_row_2 :: analysis where
  "example_row_2 =
     \<lparr>a_ticker = ''BBB4'', a_ultima_cotacao = Fin 8, a_posicao = Fin 300,
      a_empresa = Some ''Beta'', a_setor = Some ''Y'', a_recomendacao = Some ''Compra'',
      a_preco_alvo = Fin 6, a_potencial = Fin (- 25)\<rparr>"

definition example_row_3 :: analysis where
  "example_row_3 =
     \<lparr>a_ticker = ''CCC3'', a_ultima_cotacao = Fin 4, a_posicao = Fin 300,
      a_empresa = Some ''Gama'', a_setor = Some ''Z'', a_recomendacao = Some ''Compra'',
      a_preco_alvo = Fin 13, a_potencial = Fin 225\<rparr>"

definition example_row_4 :: analysis where
  "example_row_4 =
     \<lparr>a_ticker = ''DDD3'', a_ultima_cotacao = Fin 7, a_posicao = Fin 340,
      a_empresa = Some ''Delta'', a_setor = Some ''X'', a_recomendacao = Some ''Venda'',
      a_preco_alvo = Fin 7, a_potencial = Fin 0\<rparr>"

definition example_row_5 :: analysis where
  "example_row_5 =
     \<lparr>a_ticker = ''EEE3'', a_ultima_cotacao = Fin 2, a_posicao = Fin 330,
      a_empresa = Some ''Eta'', a_setor = Some ''Y'', a_recomendacao = None,
      a_preco_alvo = Fin 0, a_potencial = Fin (- 100)\<rparr>"

definition example_row_6 :: analysis where
  "example_row_6 =
     \<lparr>a_ticker = ''FFF3'', a_ultima_cotacao = Fin 8, a_posicao = Fin 330,
      a_empresa = Some ''Fi'', a_setor = Some ''Z'', a_recomendacao = Some ''Neutro'',
      a_preco_alvo = Fin 9, a_potencial = Fin (25 / 2)\<rparr>"

definition example_df_spread :: "analysis list" where
  "example_df_spread = [example_row_4, example_row_5, example_row_6]"

definition example_df :: "analysis list" where
  "example_df = [example_row_1, example_row_2, example_row_3]"

(* Properties *)

section \<open>Properties of the monetary parser\<close>

lemma clean_value_example_currency:
  "clean_value (VStr ''R$ 1.275,34'') = Inr (Fin (127534 / 100))"
  by code_simp

lemma clean_value_example_empty: "clean_value (VStr '''') = Inr (Fin 0)"
  by code_simp

lemma clean_value_example_int: "clean_value (VInt 42) = Inr (Fin 42)"
  by (simp add: clean_value_def float_of_number_def)

lemma clean_value_str_cases:
  "clean_value (VStr s) =
     (case py_float (clean_text s) of Some x \<Rightarrow> Inr x | None \<Rightarrow> Inr (Fin 0))"
  by (simp add: clean_value_def float_of_number_def split: option.splits)

lemma clean_value_str_total: "\<exists>x. clean_value (VStr s) = Inr x"
  by (simp add: clean_value_str_cases split: option.splits)

lemma py_float_abc: "py_float (clean_text ''abc'') = None"
  by code_simp

text \<open>
  Claim C4.  \<open>clean_value\<close> maps \<open>"R$ 1.275,34"\<close> to 1275.34, the empty string to 0.0
  and the integer 42 to 42.0; on every string it returns a number and raises nothing,
  and the number is 0.0 whenever the text left after removing the currency symbol and
  the separators is not accepted by \<open>float\<close>.
\<close>

theorem clean_value_spec:
  "clean_value (VStr ''R$ 1.275,34'') = Inr (Fin (127534 / 100))
   \<and> clean_value (VStr '''') = Inr (Fin 0)
   \<and> clean_value (VInt 42) = Inr (Fin 42)
   \<and> (\<forall>s. (\<exists>x. clean_value (VStr s) = Inr x)
          \<and> (py_float (clean_text s) = None \<longrightarrow> clean_value (VStr s) = Inr (Fin 0)))"
  using clean_value_example_currency clean_value_example_empty clean_value_example_int
  by (simp add: clean_value_str_cases split: option.splits)

theorem clean_value_spec_witness:
  "py_float (clean_text ''abc'') = None \<and> clean_value (VStr ''abc'') = Inr (Fin 0)"
  using clean_value_spec py_float_abc by blast

section \<open>Properties of the extractor\<close>

lemma parse_line_total: "\<exists>r. parse_line l = Inr r"
proof -
  obtain q where q: "\<And>u. clean_value (VStr u) = Inr (q u)"
    using clean_value_str_total by metis
  show ?thesis
    by (simp add: parse_line_def q split: option.splits list.splits)
qed

lemma extract_rows_skip:
  "parse_line l = Inr None \<Longrightarrow>
   extract_rows (pre @ l # post) acc = extract_rows (pre @ post) acc"
  by (induction pre arbitrary: acc) (simp_all split: sum.splits option.splits)

lemma search_denylisted_example:
  "rx_search line_regex ''AURE3S 10 R$ 1,00 R$ 2,00'' = Some [''AURE3S'', ''R$ 1,00'', ''R$ 2,00'']"
  by code_simp

lemma extract_rows_example:
  "extract_rows [''PETR4 100 R$ 30,00 R$ 3.000,00'', ''VALE3 5 R$ 60,00 R$ 300,00''] [] =
     Inr [\<lparr>h_ticker = ''PETR4'', h_ultima_cotacao = Fin 30, h_posicao = Fin 3000\<rparr>,
          \<lparr>h_ticker = ''VALE3'', h_ultima_cotacao = Fin 60, h_posicao = Fin 300\<rparr>]"
  by code_simp

text \<open>
  Claim C7.  A line on which the pattern matches with a captured ticker of the denylist
  adds no row, and the table extracted from the lines is the one extracted without that
  line: the rows of the other lines are unaffected.
\<close>

theorem denylisted_line_dropped:
  assumes "rx_search line_regex l = Some [a, u, p]" and "a \<in> set denylist"
  shows "parse_line l = Inr None
         \<and> extract_rows (pre @ l # post) acc = extract_rows (pre @ post) acc"
proof -
  have "parse_line l = Inr None"
    using assms by (simp add: parse_line_def)
  then show ?thesis
    using extract_rows_skip by simp
qed

theorem denylisted_line_dropped_witness:
  "rx_search line_regex ''AURE3S 10 R$ 1,00 R$ 2,00'' = Some [''AURE3S'', ''R$ 1,00'', ''R$ 2,00'']
   \<and> ''AURE3S'' \<in> set denylist
   \<and> extract_rows [''PETR4 100 R$ 30,00 R$ 3.000,00'', ''AURE3S 10 R$ 1,00 R$ 2,00'',
                    ''VALE3 5 R$ 60,00 R$ 300,00''] [] =
       Inr [\<lparr>h_ticker = ''PETR4'', h_ultima_cotacao = Fin 30, h_posicao = Fin 3000\<rparr>,
            \<lparr>h_ticker = ''VALE3'', h_ultima_cotacao = Fin 60, h_posicao = Fin 300\<rparr>]"
proof -
  have d: "''AURE3S'' \<in> set denylist"
    by (simp add: denylist_def)
  from denylisted_line_dropped
    [OF search_denylisted_example d, of "[''PETR4 100 R$ 30,00 R$ 3.000,00'']"
      "[''VALE3 5 R$ 60,00 R$ 300,00'']" "[]"]
  show ?thesis
    using search_denylisted_example d extract_rows_example by simp
qed

section \<open>Properties of the loader\<close>

lemma fallback_data_lengths: "map (\<lambda>(name, cells). length cells) fallback_data = [14, 14, 13, 14, 14]"
  by (simp add: fallback_data_def)

lemma fallback_data_raises: "pd_DataFrame fallback_data = Inl ValueError"
  by (simp add: pd_DataFrame_def fallback_data_lengths)

lemma read_recommendations_unreadable: "read_recommendations (Unreadable e) = Inl e"
  by (simp add: read_recommendations_def pd_read_excel_def)

lemma read_recommendations_no_sheet: "read_recommendations (Workbook []) = Inl ValueError"
  by (simp add: read_recommendations_def pd_read_excel_def)

lemma read_recommendations_no_column:
  "read_recommendations (Workbook [(sheet_recomendacoes, [(''Ticker'', [CStr ''PETR4''])])]) =
     Inl ValueError"
  by (simp add: read_recommendations_def pd_read_excel_def columns_def expected_cols_def)

text \<open>
  Claim C1 says that whenever the sheet cannot be read, is missing or lacks an expected
  column, the loader returns the whole built-in table, with the tickers PETR4 and VALE3.
  The code does not: the \<open>Setor\<close> list of the built-in data has 13 entries and the other
  four lists have 14, so the constructor of the table raises \<open>ValueError\<close> inside the
  \<open>except\<close> branch, and on every such input the function raises instead of returning.
\<close>

theorem load_recommendations_fallback_raises:
  "load_recommendations_from_excel excel_file =
     (case read_recommendations excel_file of
        Inr reco_df \<Rightarrow> Inr reco_df
      | Inl e \<Rightarrow> Inl ValueError)
   \<and> load_recommendations_from_excel (Unreadable OSError) = Inl ValueError
   \<and> load_recommendations_from_excel (Workbook []) = Inl ValueError
   \<and> load_recommendations_from_excel
         (Workbook [(sheet_recomendacoes, [(''Ticker'', [CStr ''PETR4''])])]) = Inl ValueError"
  by (simp add: load_recommendations_from_excel_def fallback_data_raises
      read_recommendations_unreadable read_recommendations_no_sheet
      read_recommendations_no_column split: sum.splits)

section \<open>Properties of the merger\<close>

lemma analysis_df_after_merge:
  "analysis_df hs rs = map after_merge (pd_merge_left hs rs)"
  by (simp add: analysis_df_def after_merge_def comp_def)

lemma after_merge_fields:
  "a_ticker (after_merge a) = a_ticker a"
  "a_ultima_cotacao (after_merge a) = a_ultima_cotacao a"
  "a_posicao (after_merge a) = a_posicao a"
  "a_empresa (after_merge a) = a_empresa a"
  "a_recomendacao (after_merge a) = a_recomendacao a"
  "a_setor (after_merge a) = Some (case a_setor a of None \<Rightarrow> nao_classificado | Some s \<Rightarrow> s)"
  "a_preco_alvo (after_merge a) = fillna (a_preco_alvo a) (Fin 0)"
  "a_potencial (after_merge a) =
     (if fl_less (Fin 0) (a_ultima_cotacao a)
      then fillna (fl_mul (fl_sub (fl_div (fillna (a_preco_alvo a) (Fin 0)) (a_ultima_cotacao a))
                     (Fin 1)) (Fin 100)) (Fin 0)
      else Fin 0)"
  by (simp_all add: after_merge_def fill_potencial_def where_cotacao_positive_def
      set_potencial_def fill_preco_alvo_def fill_setor_def fillna_def isna_def)

lemma pd_merge_left_append:
  "pd_merge_left (xs @ ys) rs = pd_merge_left xs rs @ pd_merge_left ys rs"
  by (simp add: pd_merge_left_def)

lemma analysis_df_append:
  "analysis_df (xs @ ys) rs = analysis_df xs rs @ analysis_df ys rs"
  by (simp add: analysis_df_after_merge pd_merge_left_append)

lemma analysis_df_Cons:
  "analysis_df (h # hs) rs = analysis_df [h] rs @ analysis_df hs rs"
  using analysis_df_append [of "[h]" hs rs] by simp

lemma analysis_df_Nil: "analysis_df [] rs = []"
  by (simp add: analysis_df_after_merge pd_merge_left_def)

lemma filter_distinct_tickers:
  "distinct (map r_ticker rs) \<Longrightarrow>
   filter (\<lambda>r. r_ticker r = t) rs = [] \<or> (\<exists>r. filter (\<lambda>r. r_ticker r = t) rs = [r])"
proof (induction rs)
  case Nil
  then show ?case by simp
next
  case (Cons x xs)
  show ?case
  proof (cases "r_ticker x = t")
    case True
    with Cons.prems have "t \<notin> r_ticker ` set xs" by auto
    then have "filter (\<lambda>r. r_ticker r = t) xs = []"
      by (auto simp: filter_empty_conv)
    with True show ?thesis by simp
  next
    case False
    with Cons show ?thesis by simp
  qed
qed

lemma merge_single_distinct:
  assumes "distinct (map r_ticker rs)"
  shows "\<exists>a. analysis_df [h] rs = [a] \<and> a_ticker a = h_ticker h
             \<and> a_ultima_cotacao a = h_ultima_cotacao h \<and> a_posicao a = h_posicao h"
  using filter_distinct_tickers [OF assms, of "h_ticker h"]
  by (auto simp: analysis_df_after_merge pd_merge_left_def after_merge_fields join_row_def)

lemma merge_single_nonempty: "analysis_df [h] rs \<noteq> []"
  by (simp add: analysis_df_after_merge pd_merge_left_def split: list.splits)

lemma merge_single_tickers: "a \<in> set (analysis_df [h] rs) \<Longrightarrow> a_ticker a = h_ticker h"
  by (auto simp: analysis_df_after_merge pd_merge_left_def after_merge_fields join_row_def
      split: list.splits)

lemma merge_distinct_columns:
  "distinct (map r_ticker rs) \<Longrightarrow>
   map holding_columns (analysis_df hs rs) = map holding_triple hs"
proof (induction hs)
  case Nil
  then show ?case by (simp add: analysis_df_Nil)
next
  case (Cons h hs)
  from merge_single_distinct [OF Cons.prems, of h]
  obtain a where "analysis_df [h] rs = [a]" "holding_columns a = holding_triple h"
    by (auto simp: holding_columns_def holding_triple_def)
  with Cons show ?case
    by (simp add: analysis_df_Cons [of h hs])
qed

lemma merge_length_ge: "length hs \<le> length (analysis_df hs rs)"
proof (induction hs)
  case Nil
  then show ?case by simp
next
  case (Cons h hs)
  have "1 \<le> length (analysis_df [h] rs)"
    using merge_single_nonempty [of h rs] by (cases "analysis_df [h] rs") simp_all
  with Cons show ?case
    by (simp add: analysis_df_Cons [of h hs])
qed

lemma merge_ticker_set: "set (map a_ticker (analysis_df hs rs)) = set (map h_ticker hs)"
proof (induction hs)
  case Nil
  then show ?case by (simp add: analysis_df_Nil)
next
  case (Cons h hs)
  have "a_ticker ` set (analysis_df [h] rs) = {h_ticker h}"
    using merge_single_nonempty [of h rs] merge_single_tickers [of _ h rs]
    by (cases "analysis_df [h] rs") auto
  with Cons show ?case
    by (simp add: analysis_df_Cons [of h hs] image_Un)
qed

lemma after_merge_unmatched:
  "after_merge (join_row h None) =
     \<lparr>a_ticker = h_ticker h, a_ultima_cotacao = h_ultima_cotacao h, a_posicao = h_posicao h,
      a_empresa = None, a_setor = Some nao_classificado, a_recomendacao = None,
      a_preco_alvo = Fin 0,
      a_potencial = (if fl_less (Fin 0) (h_ultima_cotacao h) then Fin (- 100) else Fin 0)\<rparr>"
  by (cases "h_ultima_cotacao h")
    (simp_all add: after_merge_def fill_potencial_def where_cotacao_positive_def
      set_potencial_def fill_preco_alvo_def fill_setor_def fillna_def isna_def join_row_def
      fl_sub_def)

lemma potencial_finite:
  assumes "a \<in> set (analysis_df hs rs)"
    and "a_ultima_cotacao a = Fin q" and "0 < q" and "a_preco_alvo a = Fin t"
  shows "a_potencial a = Fin ((t / q - 1) * 100)"
proof -
  from assms(1) obtain j where a: "a = after_merge j"
    by (auto simp: analysis_df_after_merge)
  from assms(2,4) have "a_ultima_cotacao j = Fin q" "fillna (a_preco_alvo j) (Fin 0) = Fin t"
    by (simp_all add: a after_merge_fields)
  with \<open>0 < q\<close> show ?thesis
    by (simp add: a after_merge_fields fl_sub_def fillna_def isna_def)
qed

lemma potencial_zero_quote:
  assumes "a \<in> set (analysis_df hs rs)" and "a_ultima_cotacao a = Fin 0"
  shows "a_potencial a = Fin 0"
proof -
  from assms(1) obtain j where a: "a = after_merge j"
    by (auto simp: analysis_df_after_merge)
  with assms(2) show ?thesis
    by (simp add: after_merge_fields)
qed

lemma example_merge_A: "analysis_df [example_holding_A] [example_reco_A] = [example_row_A]"
  by (simp add: analysis_df_after_merge pd_merge_left_def example_holding_A_def
      example_reco_A_def example_row_A_def join_row_def after_merge_def fill_potencial_def
      where_cotacao_positive_def set_potencial_def fill_preco_alvo_def fill_setor_def
      fillna_def isna_def fl_sub_def)

lemma example_merge_A_twice:
  "analysis_df [example_holding_A] [example_reco_A, example_reco_A] =
     [example_row_A, example_row_A]"
  by (simp add: analysis_df_after_merge pd_merge_left_def example_holding_A_def
      example_reco_A_def example_row_A_def join_row_def after_merge_def fill_potencial_def
      where_cotacao_positive_def set_potencial_def fill_preco_alvo_def fill_setor_def
      fillna_def isna_def fl_sub_def)

text \<open>
  Claim C2.  In every row of the analysis table, \<open>Potencial (%)\<close> is
  \<open>(target / quote - 1) * 100\<close> when the last quote is positive, and it is 0 when the
  last quote is 0, whatever the target price.  (The values are finite numbers; the target
  price is the one of the row, 0 where the recommendation table gave none.)
\<close>

theorem potencial_formula:
  assumes "a \<in> set (analysis_df portfolio_df reco_df)"
  shows "(\<forall>q t. a_ultima_cotacao a = Fin q \<and> 0 < q \<and> a_preco_alvo a = Fin t
            \<longrightarrow> a_potencial a = Fin ((t / q - 1) * 100))
         \<and> (a_ultima_cotacao a = Fin 0 \<longrightarrow> a_potencial a = Fin 0)"
  using assms potencial_finite potencial_zero_quote by blast

theorem potencial_formula_witness:
  "example_row_A \<in> set (analysis_df [example_holding_A] [example_reco_A])
   \<and> a_ultima_cotacao example_row_A = Fin 5 \<and> a_preco_alvo example_row_A = Fin 10
   \<and> a_potencial example_row_A = Fin ((10 / 5 - 1) * 100)"
proof -
  have m: "example_row_A \<in> set (analysis_df [example_holding_A] [example_reco_A])"
    by (simp add: example_merge_A)
  have f: "a_ultima_cotacao example_row_A = Fin 5" "a_preco_alvo example_row_A = Fin 10"
    by (simp_all add: example_row_A_def)
  from potencial_formula [OF m] f have "a_potencial example_row_A = Fin ((10 / 5 - 1) * 100)"
    by simp
  with m f show ?thesis by simp
qed

text \<open>
  Claim C3 says that for every holdings table and every recommendation table the merge
  gives exactly one row per holding.  It does not when the recommendation table lists a
  ticker twice: the left join then gives the holding once for each of the two rows.
\<close>

theorem merge_row_count_counterexample:
  "length (analysis_df [example_holding_A] [example_reco_A, example_reco_A]) \<noteq>
     length [example_holding_A]"
  by (simp add: example_merge_A_twice)

lemma merge_single_columns:
  "map holding_columns (analysis_df [h] rs) =
     replicate (max 1 (length (filter (\<lambda>r. r_ticker r = h_ticker h) rs))) (holding_triple h)"
proof (cases "filter (\<lambda>r. r_ticker r = h_ticker h) rs")
  case Nil
  then show ?thesis
    by (simp add: analysis_df_after_merge pd_merge_left_def holding_columns_def
        holding_triple_def after_merge_fields join_row_def)
next
  case (Cons m ms)
  have "map (\<lambda>r. holding_columns (after_merge (join_row h (Some r)))) xs =
        replicate (length xs) (holding_triple h)" for xs
    by (induction xs)
      (simp_all add: holding_columns_def holding_triple_def after_merge_fields join_row_def)
  from this [of "m # ms"] Cons show ?thesis
    by (simp add: analysis_df_after_merge pd_merge_left_def comp_def)
qed

lemma merge_columns:
  "map holding_columns (analysis_df hs rs) =
     concat (map (\<lambda>h. replicate (max 1 (length (filter (\<lambda>r. r_ticker r = h_ticker h) rs)))
                          (holding_triple h)) hs)"
proof (induction hs)
  case Nil
  then show ?case by (simp add: analysis_df_Nil)
next
  case (Cons h hs)
  then show ?case
    by (simp add: analysis_df_Cons [of h hs] merge_single_columns)
qed

lemma merge_length:
  "length (analysis_df hs rs) =
     sum_list (map (\<lambda>h. max 1 (length (filter (\<lambda>r. r_ticker r = h_ticker h) rs))) hs)"
proof -
  have "length (analysis_df hs rs) = length (map holding_columns (analysis_df hs rs))"
    by simp
  also have "\<dots> = sum_list (map (\<lambda>h. max 1 (length (filter (\<lambda>r. r_ticker r = h_ticker h) rs))) hs)"
    unfolding merge_columns by (simp add: length_concat comp_def)
  finally show ?thesis .
qed

lemma example_rows_three:
  "concat (map (\<lambda>h. replicate
                  (max 1 (length (filter (\<lambda>r. r_ticker r = h_ticker h)
                                    [example_reco_A, example_reco_A, example_reco_A])))
                  (h_ticker h, h_ultima_cotacao h, h_posicao h))
             [example_holding_A, example_holding_B]) =
   [(''A'', Fin 5, Fin 1000), (''A'', Fin 5, Fin 1000), (''A'', Fin 5, Fin 1000),
    (''B'', Fin 5, Fin 3000)]"
  by code_simp

lemma example_count_three:
  "sum_list (map (\<lambda>h. max 1 (length (filter (\<lambda>r. r_ticker r = h_ticker h)
                                      [example_reco_A, example_reco_A, example_reco_A])))
               [example_holding_A, example_holding_B]) = 4"
  by code_simp

text \<open>
  Claim C3, amended.  The rows of the analysis table are the rows of the holdings table
  in their order, each holding as many times as the recommendation table has rows with
  its ticker, and once when it has none; every row carries the ticker, the quote and
  the position of its holding.  So no holding is dropped, a ticker of the recommendation
  table alone contributes no row, and when no ticker occurs twice in the recommendation
  table there is exactly one row for each holding.
\<close>

theorem merge_one_row_per_holding:
  "map (\<lambda>a. (a_ticker a, a_ultima_cotacao a, a_posicao a)) (analysis_df portfolio_df reco_df) =
     concat (map (\<lambda>h. replicate
                          (max 1 (length (filter (\<lambda>r. r_ticker r = h_ticker h) reco_df)))
                          (h_ticker h, h_ultima_cotacao h, h_posicao h)) portfolio_df)
   \<and> length (analysis_df portfolio_df reco_df) =
       sum_list (map (\<lambda>h. max 1 (length (filter (\<lambda>r. r_ticker r = h_ticker h) reco_df)))
                   portfolio_df)
   \<and> (distinct (map r_ticker reco_df) \<longrightarrow>
        length (analysis_df portfolio_df reco_df) = length portfolio_df
        \<and> map (\<lambda>a. (a_ticker a, a_ultima_cotacao a, a_posicao a))
              (analysis_df portfolio_df reco_df) =
            map (\<lambda>h. (h_ticker h, h_ultima_cotacao h, h_posicao h)) portfolio_df)
   \<and> length portfolio_df \<le> length (analysis_df portfolio_df reco_df)
   \<and> set (map a_ticker (analysis_df portfolio_df reco_df)) = set (map h_ticker portfolio_df)"
proof -
  have t: "holding_triple = (\<lambda>h. (h_ticker h, h_ultima_cotacao h, h_posicao h))"
    by (auto simp: holding_triple_def)
  have c: "holding_columns = (\<lambda>a. (a_ticker a, a_ultima_cotacao a, a_posicao a))"
    by (auto simp: holding_columns_def)
  have "length (analysis_df portfolio_df reco_df) = length portfolio_df"
    if "distinct (map r_ticker reco_df)"
    using merge_distinct_columns [OF that, of portfolio_df]
    by (metis length_map)
  then show ?thesis
    using merge_columns [of portfolio_df reco_df] merge_length [of portfolio_df reco_df]
      merge_distinct_columns [of reco_df portfolio_df] merge_length_ge [of portfolio_df reco_df]
      merge_ticker_set [of portfolio_df reco_df]
    unfolding t c by blast
qed

theorem merge_one_row_per_holding_witness:
  "distinct (map r_ticker [example_reco_A, example_reco_B])
   \<and> map (\<lambda>a. (a_ticker a, a_ultima_cotacao a, a_posicao a))
        (analysis_df [example_holding_A, example_holding_B] [example_reco_A, example_reco_B]) =
       [(''A'', Fin 5, Fin 1000), (''B'', Fin 5, Fin 3000)]
   \<and> length (analysis_df [example_holding_A, example_holding_B]
               [example_reco_A, example_reco_A, example_reco_A]) = 4
   \<and> map (\<lambda>a. (a_ticker a, a_ultima_cotacao a, a_posicao a))
        (analysis_df [example_holding_A, example_holding_B]
           [example_reco_A, example_reco_A, example_reco_A]) =
       [(''A'', Fin 5, Fin 1000), (''A'', Fin 5, Fin 1000), (''A'', Fin 5, Fin 1000),
        (''B'', Fin 5, Fin 3000)]"
proof -
  have d: "distinct (map r_ticker [example_reco_A, example_reco_B])"
    by (simp add: example_reco_A_def example_reco_B_def)
  from merge_one_row_per_holding
    [of "[example_holding_A, example_holding_B]" "[example_reco_A, example_reco_B]"] d
  have "map (\<lambda>a. (a_ticker a, a_ultima_cotacao a, a_posicao a))
        (analysis_df [example_holding_A, example_holding_B] [example_reco_A, example_reco_B]) =
       map (\<lambda>h. (h_ticker h, h_ultima_cotacao h, h_posicao h))
         [example_holding_A, example_holding_B]"
    by blast
  then have one: "map (\<lambda>a. (a_ticker a, a_ultima_cotacao a, a_posicao a))
        (analysis_df [example_holding_A, example_holding_B] [example_reco_A, example_reco_B]) =
       [(''A'', Fin 5, Fin 1000), (''B'', Fin 5, Fin 3000)]"
    by (simp add: example_holding_A_def example_holding_B_def)
  from merge_one_row_per_holding
    [of "[example_holding_A, example_holding_B]" "[example_reco_A, example_reco_A, example_reco_A]"]
  have three: "map (\<lambda>a. (a_ticker a, a_ultima_cotacao a, a_posicao a))
        (analysis_df [example_holding_A, example_holding_B]
           [example_reco_A, example_reco_A, example_reco_A]) =
       [(''A'', Fin 5, Fin 1000), (''A'', Fin 5, Fin 1000), (''A'', Fin 5, Fin 1000),
        (''B'', Fin 5, Fin 3000)]"
    and len: "length (analysis_df [example_holding_A, example_holding_B]
               [example_reco_A, example_reco_A, example_reco_A]) = 4"
    unfolding example_rows_three example_count_three by blast+
  from d one three len show ?thesis by simp
qed

text \<open>
  Claim C10.  A holding whose ticker is not in the recommendation table gives one row with
  the sector \<open>nao_classificado\<close>, the target price 0 and no recommendation; its
  \<open>Potencial (%)\<close> is \<open>-100\<close> when its last quote is positive (and 0 otherwise).
\<close>

theorem unmatched_holding_row:
  assumes "h_ticker h \<notin> set (map r_ticker reco_df)"
  shows "analysis_df (pre @ h # post) reco_df =
           analysis_df pre reco_df @
           [\<lparr>a_ticker = h_ticker h, a_ultima_cotacao = h_ultima_cotacao h,
             a_posicao = h_posicao h, a_empresa = None, a_setor = Some nao_classificado,
             a_recomendacao = None, a_preco_alvo = Fin 0,
             a_potencial = (if fl_less (Fin 0) (h_ultima_cotacao h) then Fin (- 100) else Fin 0)\<rparr>]
           @ analysis_df post reco_df"
proof -
  from assms have "filter (\<lambda>r. r_ticker r = h_ticker h) reco_df = []"
    by (induction reco_df) auto
  then have "analysis_df [h] reco_df = [after_merge (join_row h None)]"
    by (simp add: analysis_df_after_merge pd_merge_left_def)
  then show ?thesis
    using analysis_df_append [of pre "h # post" reco_df] analysis_df_Cons [of h post reco_df]
    by (simp add: after_merge_unmatched)
qed

theorem unmatched_holding_row_witness:
  "h_ticker example_holding_A \<notin> set (map r_ticker [example_reco_B])
   \<and> analysis_df [example_holding_A] [example_reco_B] =
       [\<lparr>a_ticker = ''A'', a_ultima_cotacao = Fin 5, a_posicao = Fin 1000, a_empresa = None,
         a_setor = Some nao_classificado, a_recomendacao = None, a_preco_alvo = Fin 0,
         a_potencial = Fin (- 100)\<rparr>]"
proof -
  have n: "h_ticker example_holding_A \<notin> set (map r_ticker [example_reco_B])"
    by (simp add: example_holding_A_def example_reco_B_def)
  from unmatched_holding_row [OF n, of "[]" "[]"] n show ?thesis
    by (simp add: analysis_df_Nil example_holding_A_def)
qed

section \<open>Properties of the sector allocation\<close>

lemma finite_fl_conv: "finite_fl x \<longleftrightarrow> x = Fin (fin_val x)"
  by (cases x) (simp_all add: finite_fl_def fin_val_def)

lemma foldl_fl_add_fin:
  "list_all finite_fl xs \<Longrightarrow> foldl fl_add (Fin acc) xs = Fin (acc + sum_list (map fin_val xs))"
proof (induction xs arbitrary: acc)
  case Nil
  then show ?case by simp
next
  case (Cons x xs)
  then obtain q where "x = Fin q"
    by (cases x) (simp_all add: finite_fl_def)
  with Cons show ?case
    by (simp add: fin_val_def add.assoc)
qed

lemma fl_sum_fin:
  assumes "list_all finite_fl xs"
  shows "fl_sum xs = Fin (sum_list (map fin_val xs))"
proof -
  have "filter (\<lambda>x. \<not> isna x) xs = xs"
    using assms by (induction xs) (auto simp: isna_def finite_fl_def)
  then show ?thesis
    using foldl_fl_add_fin [OF assms, of 0] by (simp add: fl_sum_def)
qed

lemma sum_list_delta_absent:
  "k \<notin> set ks \<Longrightarrow> sum_list (map (\<lambda>s. if k = s then (v :: rat) else 0) ks) = 0"
  by (induction ks) auto

lemma sum_list_delta:
  "distinct ks \<Longrightarrow> k \<in> set ks \<Longrightarrow>
   sum_list (map (\<lambda>s. if k = s then (v :: rat) else 0) ks) = v"
  by (induction ks) (auto simp: sum_list_delta_absent)

lemma sum_list_scaled:
  "sum_list (map (\<lambda>s. g s / T * 100) ks) = sum_list (map g ks) / (T :: rat) * 100"
  by (induction ks) (simp_all add: add_divide_distrib distrib_right)

lemma sum_list_groups:
  fixes f :: "'a \<Rightarrow> rat"
  assumes "distinct ks" and "\<forall>a \<in> set df. key a \<in> set ks"
  shows "sum_list (map (\<lambda>s. sum_list (map f (filter (\<lambda>a. key a = s) df))) ks) =
         sum_list (map f df)"
  using assms(2)
proof (induction df)
  case Nil
  then show ?case by simp
next
  case (Cons a df)
  have "sum_list (map (\<lambda>s. sum_list (map f (filter (\<lambda>a. key a = s) (a # df)))) ks) =
        sum_list (map (\<lambda>s. (if key a = s then f a else 0)
                      + sum_list (map f (filter (\<lambda>a. key a = s) df))) ks)"
    by (rule arg_cong [where f = sum_list]) (rule map_cong, simp_all)
  also have "\<dots> = sum_list (map (\<lambda>s. if key a = s then f a else 0) ks)
                  + sum_list (map (\<lambda>s. sum_list (map f (filter (\<lambda>a. key a = s) df))) ks)"
    by (simp add: sum_list_addf)
  also have "\<dots> = f a + sum_list (map f df)"
    using Cons assms(1) by (simp add: sum_list_delta)
  finally show ?case by simp
qed

lemma setor_keys_distinct: "distinct (setor_keys df)"
  by (simp add: setor_keys_def)

lemma setor_keys_set: "set (setor_keys df) = {s. \<exists>a \<in> set df. a_setor a = Some s}"
  by (auto simp: setor_keys_def split: option.splits)

lemma group_sums_total:
  assumes "\<forall>a \<in> set df. a_setor a \<noteq> None"
  shows "sum_list (map (\<lambda>s. sum_list (map (fin_val \<circ> a_posicao)
                                  (filter (\<lambda>a. a_setor a = Some s) df))) (setor_keys df)) =
         sum_list (map (fin_val \<circ> a_posicao) df)"
proof -
  have "\<forall>a \<in> set df. the (a_setor a) \<in> set (setor_keys df)"
    using assms by (auto simp: setor_keys_set)
  from sum_list_groups [OF setor_keys_distinct this, of "fin_val \<circ> a_posicao"]
  have "sum_list (map (\<lambda>s. sum_list (map (fin_val \<circ> a_posicao)
                                  (filter (\<lambda>a. the (a_setor a) = s) df))) (setor_keys df)) =
        sum_list (map (fin_val \<circ> a_posicao) df)" .
  moreover have "filter (\<lambda>a. the (a_setor a) = s) df = filter (\<lambda>a. a_setor a = Some s) df" for s
    using assms by (intro filter_cong) auto
  ultimately show ?thesis by simp
qed

text \<open>
  Claim C6.  For an analysis table in which every row has a sector and a finite position,
  and whose total position is positive, the percentages of the sector allocation (the
  position summed per sector, over the total, times 100) sum to 100.  The arithmetic is
  exact: the rounding of floating point is not modelled.
\<close>

theorem sector_percent_sum:
  assumes sec: "\<forall>a \<in> set df. a_setor a \<noteq> None"
    and fin: "\<forall>a \<in> set df. finite_fl (a_posicao a)"
    and pos: "fl_less (Fin 0) (total_portfolio_value df)"
  shows "fl_sum (map (\<lambda>(s, v, pct). pct) (sector_allocation df)) = Fin 100"
proof -
  define T where "T = sum_list (map (fin_val \<circ> a_posicao) df)"
  define S where "S = (\<lambda>s. sum_list (map (fin_val \<circ> a_posicao) (filter (\<lambda>a. a_setor a = Some s) df)))"
  have all: "list_all finite_fl (map a_posicao xs)" if "set xs \<subseteq> set df" for xs
    using that fin by (auto simp: list_all_iff)
  have total: "total_portfolio_value df = Fin T"
    using fl_sum_fin [OF all [of df]] by (simp add: total_portfolio_value_def T_def comp_def)
  with pos have T: "0 < T" by simp
  have grp: "fl_sum (map a_posicao (filter (\<lambda>a. a_setor a = Some s) df)) = Fin (S s)" for s
    using fl_sum_fin [OF all [of "filter (\<lambda>a. a_setor a = Some s) df"]]
    by (simp add: S_def comp_def)
  have pct: "map (\<lambda>(s, v, pct). pct) (sector_allocation df) =
             map (\<lambda>s. Fin (S s / T * 100)) (setor_keys df)"
    using T by (simp add: sector_allocation_def groupby_setor_sum_def comp_def grp total)
  have "fl_sum (map (\<lambda>s. Fin (S s / T * 100)) (setor_keys df)) =
        Fin (sum_list (map (\<lambda>s. S s / T * 100) (setor_keys df)))"
    using fl_sum_fin [of "map (\<lambda>s. Fin (S s / T * 100)) (setor_keys df)"]
    by (simp add: list_all_iff finite_fl_def comp_def fin_val_def)
  also have "sum_list (map (\<lambda>s. S s / T * 100) (setor_keys df)) =
             sum_list (map S (setor_keys df)) / T * 100"
    by (rule sum_list_scaled)
  also have "sum_list (map S (setor_keys df)) = T"
    using group_sums_total [OF sec] by (simp add: S_def T_def)
  finally show ?thesis
    using T by (simp add: pct)
qed

lemma example_merge_AB:
  "analysis_df [example_holding_A, example_holding_B] [example_reco_A, example_reco_B] =
     [example_row_A, example_row_B]"
  by (simp add: analysis_df_after_merge pd_merge_left_def example_holding_A_def
      example_holding_B_def example_reco_A_def example_reco_B_def example_row_A_def
      example_row_B_def join_row_def after_merge_def fill_potencial_def
      where_cotacao_positive_def set_potencial_def fill_preco_alvo_def fill_setor_def
      fillna_def isna_def fl_sub_def)

lemma example_allocation_AB:
  "sector_allocation [example_row_A, example_row_B] =
     [(''X'', Fin 1000, Fin 25), (''Y'', Fin 3000, Fin 75)]"
  by code_simp

lemma example_total_AB: "total_portfolio_value [example_row_A, example_row_B] = Fin 4000"
  by code_simp

theorem sector_percent_sum_witness:
  "list_all (\<lambda>a. a_setor a \<noteq> None) [example_row_A, example_row_B]
   \<and> list_all (\<lambda>a. finite_fl (a_posicao a)) [example_row_A, example_row_B]
   \<and> fl_less (Fin 0) (total_portfolio_value [example_row_A, example_row_B])
   \<and> sector_allocation [example_row_A, example_row_B] =
       [(''X'', Fin 1000, Fin 25), (''Y'', Fin 3000, Fin 75)]
   \<and> fl_sum (map (\<lambda>(s, v, pct). pct) (sector_allocation [example_row_A, example_row_B])) =
       Fin 100"
proof -
  have s: "\<forall>a \<in> set [example_row_A, example_row_B]. a_setor a \<noteq> None"
    by (simp add: example_row_A_def example_row_B_def)
  have f: "\<forall>a \<in> set [example_row_A, example_row_B]. finite_fl (a_posicao a)"
    by (simp add: example_row_A_def example_row_B_def finite_fl_def)
  have t: "fl_less (Fin 0) (total_portfolio_value [example_row_A, example_row_B])"
    by (simp add: example_total_AB)
  from sector_percent_sum [OF s f t] s f t show ?thesis
    by (simp add: example_allocation_AB)
qed

section \<open>Properties of the narrative generator\<close>

subsection \<open>Sorting\<close>

lemma mset_insort_fl: "mset (insort_fl k x xs) = add_mset x (mset xs)"
  by (induction xs) simp_all

lemma mset_argsort_stable: "mset (argsort_stable k xs) = mset xs"
  by (induction xs) (simp_all add: argsort_stable_def mset_insort_fl)

lemma mset_sort_values_desc: "mset (sort_values_desc k xs) = mset xs"
  by (simp add: sort_values_desc_def mset_argsort_stable)

lemma set_sort_values_desc: "set (sort_values_desc k xs) = set xs"
  using mset_sort_values_desc [of k xs] by (metis set_mset_mset)

lemma length_sort_values_desc: "length (sort_values_desc k xs) = length xs"
  using mset_sort_values_desc [of k xs] by (metis size_mset)

lemma fl_less_asym: "fl_less x y \<Longrightarrow> \<not> fl_less y x"
  by (cases x; cases y) simp_all

lemma fl_not_less_trans:
  "\<not> isna x \<Longrightarrow> \<not> isna y \<Longrightarrow> \<not> isna z \<Longrightarrow>
   \<not> fl_less y x \<Longrightarrow> \<not> fl_less z y \<Longrightarrow> \<not> fl_less z x"
  by (cases x; cases y; cases z) (simp_all add: isna_def)

lemma set_insort_fl: "set (insort_fl k x xs) = insert x (set xs)"
  using mset_insort_fl [of k x xs] by (metis set_mset_mset set_mset_add_mset_insert)

lemma sorted_insort_fl:
  assumes "sorted_wrt (\<lambda>a b. \<not> fl_less (k b) (k a)) xs"
    and "\<not> isna (k x)" and "\<forall>y \<in> set xs. \<not> isna (k y)"
  shows "sorted_wrt (\<lambda>a b. \<not> fl_less (k b) (k a)) (insort_fl k x xs)"
  using assms
proof (induction xs)
  case Nil
  then show ?case by simp
next
  case (Cons y ys)
  show ?case
  proof (cases "fl_less (k y) (k x)")
    case True
    then have "\<not> fl_less (k x) (k y)"
      by (rule fl_less_asym)
    with True Cons show ?thesis
      by (auto simp: set_insort_fl)
  next
    case False
    have "\<not> fl_less (k z) (k x)" if "z \<in> set ys" for z
    proof -
      from that Cons.prems have "\<not> fl_less (k z) (k y)" "\<not> isna (k z)" "\<not> isna (k y)"
        by auto
      with False \<open>\<not> isna (k x)\<close> show ?thesis
        using fl_not_less_trans [of "k x" "k y" "k z"] by blast
    qed
    with False Cons.prems show ?thesis by auto
  qed
qed

lemma sorted_argsort_stable:
  "\<forall>y \<in> set xs. \<not> isna (k y) \<Longrightarrow>
   sorted_wrt (\<lambda>a b. \<not> fl_less (k b) (k a)) (argsort_stable k xs)"
proof (induction xs)
  case Nil
  then show ?case by (simp add: argsort_stable_def)
next
  case (Cons x xs)
  then have "sorted_wrt (\<lambda>a b. \<not> fl_less (k b) (k a)) (argsort_stable k xs)"
    by simp
  moreover have "\<forall>y \<in> set (argsort_stable k xs). \<not> isna (k y)"
    using Cons.prems mset_argsort_stable [of k xs] by (metis list.set_intros(2) set_mset_mset)
  ultimately show ?case
    using Cons.prems sorted_insort_fl [of k "argsort_stable k xs" x]
    by (simp add: argsort_stable_def)
qed

text \<open>The rows with a value, in the order of \<open>sort_values_desc\<close>, are descending.\<close>

lemma sorted_desc_values:
  "sorted_wrt (\<lambda>a b. \<not> fl_less (k a) (k b))
     (rev (argsort_stable k (rev (filter (\<lambda>x. \<not> isna (k x)) xs))))"
proof -
  have "sorted_wrt (\<lambda>a b. \<not> fl_less (k b) (k a))
          (argsort_stable k (rev (filter (\<lambda>x. \<not> isna (k x)) xs)))"
    by (rule sorted_argsort_stable) simp
  then show ?thesis
    by (simp add: sorted_wrt_rev)
qed

lemma sort_values_desc_head:
  assumes "sort_values_desc k xs = y # ys" and "x \<in> set xs"
  shows "\<not> fl_less (k y) (k x)"
proof (cases "isna (k y) \<or> isna (k x)")
  case True
  then show ?thesis
    by (cases "k y"; cases "k x") (simp_all add: isna_def)
next
  case False
  define v where "v = rev (argsort_stable k (rev (filter (\<lambda>x. \<not> isna (k x)) xs)))"
  have sv: "sorted_wrt (\<lambda>a b. \<not> fl_less (k a) (k b)) v"
    unfolding v_def by (rule sorted_desc_values)
  have "mset v = mset (filter (\<lambda>x. \<not> isna (k x)) xs)"
    by (simp add: v_def mset_argsort_stable)
  then have setv: "set v = {x \<in> set xs. \<not> isna (k x)}"
    by (metis set_filter set_mset_mset)
  with assms(2) False have xv: "x \<in> set v" by simp
  then obtain w ws where v: "v = w # ws"
    by (cases v) auto
  with assms(1) have "w = y"
    by (simp add: sort_values_desc_def v_def)
  with v sv xv show ?thesis
    using False fl_less_asym [of "k y" "k y"] by (cases "x = y") auto
qed

lemma concat_map_if:
  "concat (map (\<lambda>x. if P x then f x else []) xs) = concat (map f (filter P xs))"
  by (induction xs) simp_all

subsection \<open>The allocation section\<close>

lemma sector_percent_length: "length (sector_percent df) = length (setor_keys df)"
  by (simp add: sector_percent_def groupby_setor_sum_def length_sort_values_desc)

lemma top_sectors_nonempty:
  assumes "a \<in> set df" and "a_setor a \<noteq> None"
  shows "top_sectors df \<noteq> []"
proof -
  from assms obtain s where "s \<in> set (setor_keys df)"
    by (auto simp: setor_keys_set)
  then have "setor_keys df \<noteq> []" by auto
  then have "sector_percent df \<noteq> []"
    using sector_percent_length [of df] by auto
  then show ?thesis
    by (cases "sector_percent df") (simp_all add: top_sectors_def)
qed

lemma generate_returns:
  assumes "a \<in> set df" and "a_setor a \<noteq> None"
  shows "\<exists>text. generate_recommendation_text df = Inr text"
  using top_sectors_nonempty [OF assms]
  by (cases "top_sectors df")
    (auto simp: generate_recommendation_text_def concentration_part_def split: prod.splits)

lemma analysis_df_setor: "a \<in> set (analysis_df hs rs) \<Longrightarrow> a_setor a \<noteq> None"
  by (auto simp: analysis_df_after_merge after_merge_fields)

subsection \<open>The text as a whole\<close>

text \<open>
  Claim C5 says that the generator returns a text for every table whose rows have their
  columns populated.  The table with no rows is such a table, and on it
  \<open>top_sectors.iloc[0]\<close> raises \<open>IndexError\<close>.
\<close>

theorem generate_empty_counterexample:
  "generate_recommendation_text [] = Inl IndexError"
  by code_simp

text \<open>
  Claim C5, amended.  On every table that has a row, and whose rows all have a sector,
  the generator returns a text and raises nothing.  The tables that the program passes
  to it are of this kind: the merge of a holdings table that has a row with any
  recommendation table.
\<close>

theorem generate_returns_text:
  "(df \<noteq> [] \<and> (\<forall>a \<in> set df. a_setor a \<noteq> None)
      \<longrightarrow> (\<exists>text. generate_recommendation_text df = Inr text))
   \<and> (portfolio_df \<noteq> []
      \<longrightarrow> (\<exists>text. generate_recommendation_text (analysis_df portfolio_df reco_df) = Inr text))"
proof (intro conjI impI)
  assume "df \<noteq> [] \<and> (\<forall>a \<in> set df. a_setor a \<noteq> None)"
  then obtain a where "a \<in> set df" "a_setor a \<noteq> None"
    by (cases df) auto
  then show "\<exists>text. generate_recommendation_text df = Inr text"
    by (rule generate_returns)
next
  assume "portfolio_df \<noteq> []"
  then have "analysis_df portfolio_df reco_df \<noteq> []"
    using merge_length_ge [of portfolio_df reco_df] by (cases portfolio_df) auto
  then obtain a where a: "a \<in> set (analysis_df portfolio_df reco_df)"
    by (cases "analysis_df portfolio_df reco_df") auto
  then have "a_setor a \<noteq> None"
    by (rule analysis_df_setor)
  with a show "\<exists>text. generate_recommendation_text (analysis_df portfolio_df reco_df) = Inr text"
    by (rule generate_returns)
qed

theorem generate_returns_text_witness:
  "example_df \<noteq> [] \<and> list_all (\<lambda>a. a_setor a \<noteq> None) example_df
   \<and> (\<exists>text. generate_recommendation_text example_df = Inr text)"
proof -
  have n: "example_df \<noteq> []"
    by (simp add: example_df_def)
  have s: "\<forall>a \<in> set example_df. a_setor a \<noteq> None"
    by (simp add: example_df_def example_row_1_def example_row_2_def example_row_3_def)
  from generate_returns_text [of example_df] n s
  have "\<exists>text. generate_recommendation_text example_df = Inr text"
    by blast
  with n s show ?thesis
    by (simp add: list_all_iff)
qed

subsection \<open>The concentration remark\<close>

lemma groupby_setor_sum_member:
  "(s, v) \<in> set (groupby_setor_sum df) \<longleftrightarrow>
     (\<exists>a \<in> set df. a_setor a = Some s)
     \<and> v = fl_sum (map a_posicao (filter (\<lambda>a. a_setor a = Some s) df))"
  by (auto simp: groupby_setor_sum_def setor_keys_set)

lemma example_sector_percent:
  "sector_percent example_df = [(''X'', Fin 40), (''Y'', Fin 30), (''Z'', Fin 30)]"
  by code_simp

lemma example_sector_percent_spread:
  "sector_percent example_df_spread = [(''X'', Fin 34), (''Y'', Fin 33), (''Z'', Fin 33)]"
  by code_simp

lemma example_allocation_section:
  "allocation_section example_df =
     ''Ol'' @ [CHR 0xC3, CHR 0xA1] @ ''! Tudo bem?\<newline>'' @ ''\<newline>'' @
       ''Fiz uma an'' @ [CHR 0xC3, CHR 0xA1] @
       ''lise da sua carteira de investimentos com base nas nossas recomenda'' @
       [CHR 0xC3, CHR 0xA7, CHR 0xC3, CHR 0xB5] @ ''es mais recentes e na aloca'' @
       [CHR 0xC3, CHR 0xA7, CHR 0xC3, CHR 0xA3] @
       ''o atual. Seguem os principais pontos:\<newline>'' @ ''\<newline>'' @
       [CHR 0xF0, CHR 0x9F, CHR 0x93, CHR 0x8A] @ '' **Aloca'' @
       [CHR 0xC3, CHR 0xA7, CHR 0xC3, CHR 0xA3] @ ''o Setorial:**\<newline>'' @
       ''- **X:** 40.0%\<newline>'' @ ''- **Y:** 30.0%\<newline>'' @
       ''- **Z:** 30.0%\<newline>''"
  by code_simp

lemma example_remaining_sections:
  "remaining_sections example_df =
     ''\<newline>'' @ [CHR 0xF0, CHR 0x9F, CHR 0x91, CHR 0x8D] @
       '' **Pontos Fortes e Oportunidades (Recomenda'' @
       [CHR 0xC3, CHR 0xA7, CHR 0xC3, CHR 0xA3] @ ''o de Compra):**\<newline>'' @
       ''- **CCC3 (Z):** Mantemos uma vis'' @ [CHR 0xC3, CHR 0xA3] @
       ''o positiva para o ativo, com um potencial de valoriza'' @
       [CHR 0xC3, CHR 0xA7, CHR 0xC3, CHR 0xA3] @ ''o de **225.00%** em rela'' @
       [CHR 0xC3, CHR 0xA7, CHR 0xC3, CHR 0xA3] @ ''o ao nosso pre'' @
       [CHR 0xC3, CHR 0xA7] @ ''o-alvo de R$ 13.00.\<newline>'' @
       ''- **AAA3 (X):** Mantemos uma vis'' @ [CHR 0xC3, CHR 0xA3] @
       ''o positiva para o ativo, com um potencial de valoriza'' @
       [CHR 0xC3, CHR 0xA7, CHR 0xC3, CHR 0xA3] @ ''o de **170.00%** em rela'' @
       [CHR 0xC3, CHR 0xA7, CHR 0xC3, CHR 0xA3] @ ''o ao nosso pre'' @
       [CHR 0xC3, CHR 0xA7] @ ''o-alvo de R$ 13.50.\<newline>'' @ ''\<newline>'' @
       ''\<newline>'' @ [CHR 0xF0, CHR 0x9F, CHR 0x92, CHR 0xA1] @ '' **Pr'' @
       [CHR 0xC3, CHR 0xB3] @ ''ximos Passos:**\<newline>'' @ ''Com base nesta an'' @
       [CHR 0xC3, CHR 0xA1] @
       ''lise, sugiro agendarmos uma conversa para discutirmos esses '' @
       ''pontos e alinharmos a estrat'' @ [CHR 0xC3, CHR 0xA9] @
       ''gia da sua carteira com seus objetivos e nosso cen'' @ [CHR 0xC3, CHR 0xA1] @
       ''rio de mercado.\<newline>'' @ ''\<newline>'' @ ''Qualquer d'' @
       [CHR 0xC3, CHR 0xBA] @ ''vida, estou '' @ [CHR 0xC3, CHR 0xA0] @ '' disposi'' @
       [CHR 0xC3, CHR 0xA7, CHR 0xC3, CHR 0xA3] @ ''o.\<newline>'' @ ''\<newline>'' @
       ''Abra'' @ [CHR 0xC3, CHR 0xA7] @ ''o!''"
  by code_simp

lemma example_allocation_section_spread:
  "allocation_section example_df_spread =
     ''Ol'' @ [CHR 0xC3, CHR 0xA1] @ ''! Tudo bem?\<newline>'' @ ''\<newline>'' @
       ''Fiz uma an'' @ [CHR 0xC3, CHR 0xA1] @
       ''lise da sua carteira de investimentos com base nas nossas recomenda'' @
       [CHR 0xC3, CHR 0xA7, CHR 0xC3, CHR 0xB5] @ ''es mais recentes e na aloca'' @
       [CHR 0xC3, CHR 0xA7, CHR 0xC3, CHR 0xA3] @
       ''o atual. Seguem os principais pontos:\<newline>'' @ ''\<newline>'' @
       [CHR 0xF0, CHR 0x9F, CHR 0x93, CHR 0x8A] @ '' **Aloca'' @
       [CHR 0xC3, CHR 0xA7, CHR 0xC3, CHR 0xA3] @ ''o Setorial:**\<newline>'' @
       ''- **X:** 34.0%\<newline>'' @ ''- **Y:** 33.0%\<newline>'' @
       ''- **Z:** 33.0%\<newline>''"
  by code_simp

lemma example_remaining_sections_spread:
  "remaining_sections example_df_spread =
     ''\<newline>'' @ ''\<newline>'' @
       [CHR 0xE2, CHR 0x9A, CHR 0xA0, CHR 0xEF, CHR 0xB8, CHR 0x8F] @
       '' **Pontos de Aten'' @ [CHR 0xC3, CHR 0xA7, CHR 0xC3, CHR 0xA3] @
       ''o (Recomenda'' @ [CHR 0xC3, CHR 0xA7, CHR 0xC3, CHR 0xA3] @
       ''o Neutra ou Venda):**\<newline>'' @ ''- **DDD3 (X):** Nossa recomenda'' @
       [CHR 0xC3, CHR 0xA7, CHR 0xC3, CHR 0xA3] @ ''o atual '' @ [CHR 0xC3, CHR 0xA9] @
       '' **Venda**. Seria interessante conversarmos sobre a possibilidade '' @
       ''de realocar essa posi'' @ [CHR 0xC3, CHR 0xA7, CHR 0xC3, CHR 0xA3] @
       ''o para ativos com maior potencial de crescimento no setor ou '' @
       ''em outros setores estrat'' @ [CHR 0xC3, CHR 0xA9] @ ''gicos.\<newline>'' @
       ''- **FFF3 (Z):** Nossa recomenda'' @ [CHR 0xC3, CHR 0xA7, CHR 0xC3, CHR 0xA3] @
       ''o atual '' @ [CHR 0xC3, CHR 0xA9] @
       '' **Neutro**. Seria interessante conversarmos sobre a possibilidade '' @
       ''de realocar essa posi'' @ [CHR 0xC3, CHR 0xA7, CHR 0xC3, CHR 0xA3] @
       ''o para ativos com maior potencial de crescimento no setor ou '' @
       ''em outros setores estrat'' @ [CHR 0xC3, CHR 0xA9] @ ''gicos.\<newline>'' @
       ''\<newline>'' @ [CHR 0xF0, CHR 0x9F, CHR 0x92, CHR 0xA1] @ '' **Pr'' @
       [CHR 0xC3, CHR 0xB3] @ ''ximos Passos:**\<newline>'' @ ''Com base nesta an'' @
       [CHR 0xC3, CHR 0xA1] @
       ''lise, sugiro agendarmos uma conversa para discutirmos esses '' @
       ''pontos e alinharmos a estrat'' @ [CHR 0xC3, CHR 0xA9] @
       ''gia da sua carteira com seus objetivos e nosso cen'' @ [CHR 0xC3, CHR 0xA1] @
       ''rio de mercado.\<newline>'' @ ''\<newline>'' @ ''Qualquer d'' @
       [CHR 0xC3, CHR 0xBA] @ ''vida, estou '' @ [CHR 0xC3, CHR 0xA0] @ '' disposi'' @
       [CHR 0xC3, CHR 0xA7, CHR 0xC3, CHR 0xA3] @ ''o.\<newline>'' @ ''\<newline>'' @
       ''Abra'' @ [CHR 0xC3, CHR 0xA7] @ ''o!''"
  by code_simp

text \<open>
  Claim C8.  Let the first sector of the allocation be \<open>sector\<close> with the share \<open>percent\<close>.
  Then \<open>sector\<close> is a sector of the table whose summed position no other sector exceeds,
  \<open>percent\<close> is that sum over the total of all positions, times 100, and the text has,
  right after the allocation lines, the concentration remark with the name of \<open>sector\<close>
  in it when \<open>percent\<close> is above 35, and nothing there otherwise.
\<close>

theorem concentration_remark_iff:
  assumes "sector_percent df = (sector, percent) # others"
  shows "generate_recommendation_text df =
           Inr (allocation_section df
                @ (if fl_less (Fin 35) percent
                   then ''\<newline>Sua carteira apresenta uma concentra'' @ c_cedilla @
                     a_tilde @ ''o um pouco maior no setor de **'' @ sector @
                     ''**. Podemos avaliar estrat'' @ e_acute @
                     ''gias para diversificar e mitigar riscos, se estiver de '' @
                     ''acordo com seu perfil.\<newline>''
                   else [])
                @ remaining_sections df)
         \<and> (\<exists>a \<in> set df. a_setor a = Some sector)
         \<and> percent =
             fl_mul (fl_div (fl_sum (map a_posicao (filter (\<lambda>a. a_setor a = Some sector) df)))
                       (fl_sum (map a_posicao df))) (Fin 100)
         \<and> (\<forall>a \<in> set df. \<forall>s. a_setor a = Some s \<longrightarrow>
               \<not> fl_less (fl_sum (map a_posicao (filter (\<lambda>a. a_setor a = Some sector) df)))
                     (fl_sum (map a_posicao (filter (\<lambda>a. a_setor a = Some s) df))))"
proof -
  have "top_sectors df = (sector, percent) # take 2 others"
    using assms by (simp add: top_sectors_def numeral_3_eq_3 numeral_2_eq_2)
  then have g: "generate_recommendation_text df =
           Inr (allocation_section df
                @ (if fl_less (Fin 35) percent
                   then ''\<newline>Sua carteira apresenta uma concentra'' @ c_cedilla @
                     a_tilde @ ''o um pouco maior no setor de **'' @ sector @
                     ''**. Podemos avaliar estrat'' @ e_acute @
                     ''gias para diversificar e mitigar riscos, se estiver de '' @
                     ''acordo com seu perfil.\<newline>''
                   else [])
                @ remaining_sections df)"
    by (simp add: generate_recommendation_text_def concentration_part_def
        concentration_remark_def)
  define G where "G = groupby_setor_sum df"
  define f where "f = (\<lambda>(s :: string, v). (s, fl_mul (fl_div v (fl_sum (map a_posicao df))) (Fin 100)))"
  have sp: "sector_percent df = map f (sort_values_desc snd G)"
    by (simp add: sector_percent_def G_def f_def)
  with assms obtain sv0 rest where s: "sort_values_desc snd G = sv0 # rest"
    and e: "f sv0 = (sector, percent)"
    by (cases "sort_values_desc snd G") auto
  obtain s0 v0 where sv0: "sv0 = (s0, v0)"
    by (cases sv0)
  with e have eq: "s0 = sector" "percent = fl_mul (fl_div v0 (fl_sum (map a_posicao df))) (Fin 100)"
    by (simp_all add: f_def)
  have "sv0 \<in> set G"
    using s set_sort_values_desc [of snd G] by (metis list.set_intros(1))
  then have m: "\<exists>a \<in> set df. a_setor a = Some sector"
    and v0: "v0 = fl_sum (map a_posicao (filter (\<lambda>a. a_setor a = Some sector) df))"
    using sv0 eq(1) by (simp_all add: G_def groupby_setor_sum_member)
  have top: "\<not> fl_less v0 (fl_sum (map a_posicao (filter (\<lambda>a. a_setor a = Some s) df)))"
    if "a \<in> set df" "a_setor a = Some s" for a s
  proof -
    from that have "(s, fl_sum (map a_posicao (filter (\<lambda>a. a_setor a = Some s) df))) \<in> set G"
      by (auto simp: G_def groupby_setor_sum_member)
    from sort_values_desc_head [OF s this] sv0 show ?thesis by simp
  qed
  from g m eq(2) top show ?thesis
    unfolding v0 by blast
qed

theorem concentration_remark_iff_witness:
  "sector_percent example_df = [(''X'', Fin 40), (''Y'', Fin 30), (''Z'', Fin 30)]
   \<and> generate_recommendation_text example_df =
       Inr ((''Ol'' @ [CHR 0xC3, CHR 0xA1] @ ''! Tudo bem?\<newline>'' @ ''\<newline>'' @
         ''Fiz uma an'' @ [CHR 0xC3, CHR 0xA1] @
         ''lise da sua carteira de investimentos com base nas nossas recomenda'' @
         [CHR 0xC3, CHR 0xA7, CHR 0xC3, CHR 0xB5] @ ''es mais recentes e na aloca'' @
         [CHR 0xC3, CHR 0xA7, CHR 0xC3, CHR 0xA3] @
         ''o atual. Seguem os principais pontos:\<newline>'' @ ''\<newline>'' @
         [CHR 0xF0, CHR 0x9F, CHR 0x93, CHR 0x8A] @ '' **Aloca'' @
         [CHR 0xC3, CHR 0xA7, CHR 0xC3, CHR 0xA3] @ ''o Setorial:**\<newline>'' @
         ''- **X:** 40.0%\<newline>'' @ ''- **Y:** 30.0%\<newline>'' @
         ''- **Z:** 30.0%\<newline>'')
            @ (''\<newline>'' @ ''Sua carteira apresenta uma concentra'' @
              [CHR 0xC3, CHR 0xA7, CHR 0xC3, CHR 0xA3] @
              ''o um pouco maior no setor de **X**. Podemos avaliar estrat'' @
              [CHR 0xC3, CHR 0xA9] @
              ''gias para diversificar e mitigar riscos, se estiver de acordo '' @
              ''com seu perfil.\<newline>'')
            @ (''\<newline>'' @ [CHR 0xF0, CHR 0x9F, CHR 0x91, CHR 0x8D] @
              '' **Pontos Fortes e Oportunidades (Recomenda'' @
              [CHR 0xC3, CHR 0xA7, CHR 0xC3, CHR 0xA3] @ ''o de Compra):**\<newline>'' @
              ''- **CCC3 (Z):** Mantemos uma vis'' @ [CHR 0xC3, CHR 0xA3] @
              ''o positiva para o ativo, com um potencial de valoriza'' @
              [CHR 0xC3, CHR 0xA7, CHR 0xC3, CHR 0xA3] @ ''o de **225.00%** em rela'' @
              [CHR 0xC3, CHR 0xA7, CHR 0xC3, CHR 0xA3] @ ''o ao nosso pre'' @
              [CHR 0xC3, CHR 0xA7] @ ''o-alvo de R$ 13.00.\<newline>'' @
              ''- **AAA3 (X):** Mantemos uma vis'' @ [CHR 0xC3, CHR 0xA3] @
              ''o positiva para o ativo, com um potencial de valoriza'' @
              [CHR 0xC3, CHR 0xA7, CHR 0xC3, CHR 0xA3] @ ''o de **170.00%** em rela'' @
              [CHR 0xC3, CHR 0xA7, CHR 0xC3, CHR 0xA3] @ ''o ao nosso pre'' @
              [CHR 0xC3, CHR 0xA7] @ ''o-alvo de R$ 13.50.\<newline>'' @ ''\<newline>'' @
              ''\<newline>'' @ [CHR 0xF0, CHR 0x9F, CHR 0x92, CHR 0xA1] @ '' **Pr'' @
              [CHR 0xC3, CHR 0xB3] @ ''ximos Passos:**\<newline>'' @ ''Com base nesta an'' @
              [CHR 0xC3, CHR 0xA1] @
              ''lise, sugiro agendarmos uma conversa para discutirmos esses '' @
              ''pontos e alinharmos a estrat'' @ [CHR 0xC3, CHR 0xA9] @
              ''gia da sua carteira com seus objetivos e nosso cen'' @ [CHR 0xC3, CHR 0xA1] @
              ''rio de mercado.\<newline>'' @ ''\<newline>'' @ ''Qualquer d'' @
              [CHR 0xC3, CHR 0xBA] @ ''vida, estou '' @ [CHR 0xC3, CHR 0xA0] @ '' disposi'' @
              [CHR 0xC3, CHR 0xA7, CHR 0xC3, CHR 0xA3] @ ''o.\<newline>'' @ ''\<newline>'' @
              ''Abra'' @ [CHR 0xC3, CHR 0xA7] @ ''o!''))
   \<and> sector_percent example_df_spread = [(''X'', Fin 34), (''Y'', Fin 33), (''Z'', Fin 33)]
   \<and> generate_recommendation_text example_df_spread =
       Inr ((''Ol'' @ [CHR 0xC3, CHR 0xA1] @ ''! Tudo bem?\<newline>'' @ ''\<newline>'' @
         ''Fiz uma an'' @ [CHR 0xC3, CHR 0xA1] @
         ''lise da sua carteira de investimentos com base nas nossas recomenda'' @
         [CHR 0xC3, CHR 0xA7, CHR 0xC3, CHR 0xB5] @ ''es mais recentes e na aloca'' @
         [CHR 0xC3, CHR 0xA7, CHR 0xC3, CHR 0xA3] @
         ''o atual. Seguem os principais pontos:\<newline>'' @ ''\<newline>'' @
         [CHR 0xF0, CHR 0x9F, CHR 0x93, CHR 0x8A] @ '' **Aloca'' @
         [CHR 0xC3, CHR 0xA7, CHR 0xC3, CHR 0xA3] @ ''o Setorial:**\<newline>'' @
         ''- **X:** 34.0%\<newline>'' @ ''- **Y:** 33.0%\<newline>'' @
         ''- **Z:** 33.0%\<newline>'')
            @ (''\<newline>'' @ ''\<newline>'' @
              [CHR 0xE2, CHR 0x9A, CHR 0xA0, CHR 0xEF, CHR 0xB8, CHR 0x8F] @
              '' **Pontos de Aten'' @ [CHR 0xC3, CHR 0xA7, CHR 0xC3, CHR 0xA3] @
              ''o (Recomenda'' @ [CHR 0xC3, CHR 0xA7, CHR 0xC3, CHR 0xA3] @
              ''o Neutra ou Venda):**\<newline>'' @ ''- **DDD3 (X):** Nossa recomenda'' @
              [CHR 0xC3, CHR 0xA7, CHR 0xC3, CHR 0xA3] @ ''o atual '' @ [CHR 0xC3, CHR 0xA9] @
              '' **Venda**. Seria interessante conversarmos sobre a possibilidade '' @
              ''de realocar essa posi'' @ [CHR 0xC3, CHR 0xA7, CHR 0xC3, CHR 0xA3] @
              ''o para ativos com maior potencial de crescimento no setor ou '' @
              ''em outros setores estrat'' @ [CHR 0xC3, CHR 0xA9] @ ''gicos.\<newline>'' @
              ''- **FFF3 (Z):** Nossa recomenda'' @ [CHR 0xC3, CHR 0xA7, CHR 0xC3, CHR 0xA3] @
              ''o atual '' @ [CHR 0xC3, CHR 0xA9] @
              '' **Neutro**. Seria interessante conversarmos sobre a possibilidade '' @
              ''de realocar essa posi'' @ [CHR 0xC3, CHR 0xA7, CHR 0xC3, CHR 0xA3] @
              ''o para ativos com maior potencial de crescimento no setor ou '' @
              ''em outros setores estrat'' @ [CHR 0xC3, CHR 0xA9] @ ''gicos.\<newline>'' @
              ''\<newline>'' @ [CHR 0xF0, CHR 0x9F, CHR 0x92, CHR 0xA1] @ '' **Pr'' @
              [CHR 0xC3, CHR 0xB3] @ ''ximos Passos:**\<newline>'' @ ''Com base nesta an'' @
              [CHR 0xC3, CHR 0xA1] @
              ''lise, sugiro agendarmos uma conversa para discutirmos esses '' @
              ''pontos e alinharmos a estrat'' @ [CHR 0xC3, CHR 0xA9] @
              ''gia da sua carteira com seus objetivos e nosso cen'' @ [CHR 0xC3, CHR 0xA1] @
              ''rio de mercado.\<newline>'' @ ''\<newline>'' @ ''Qualquer d'' @
              [CHR 0xC3, CHR 0xBA] @ ''vida, estou '' @ [CHR 0xC3, CHR 0xA0] @ '' disposi'' @
              [CHR 0xC3, CHR 0xA7, CHR 0xC3, CHR 0xA3] @ ''o.\<newline>'' @ ''\<newline>'' @
              ''Abra'' @ [CHR 0xC3, CHR 0xA7] @ ''o!''))"
proof -
  have b: "fl_less (Fin 35) (Fin 40)" "\<not> fl_less (Fin 35) (Fin 34)"
    by simp_all
  from concentration_remark_iff [OF example_sector_percent] b(1)
  have one: "generate_recommendation_text example_df =
       Inr (allocation_section example_df
            @ (''\<newline>'' @ ''Sua carteira apresenta uma concentra'' @
              [CHR 0xC3, CHR 0xA7, CHR 0xC3, CHR 0xA3] @
              ''o um pouco maior no setor de **X**. Podemos avaliar estrat'' @
              [CHR 0xC3, CHR 0xA9] @
              ''gias para diversificar e mitigar riscos, se estiver de acordo '' @
              ''com seu perfil.\<newline>'')
            @ remaining_sections example_df)"
    by (simp add: c_cedilla_def a_tilde_def e_acute_def)
  from concentration_remark_iff [OF example_sector_percent_spread] b(2)
  have two: "generate_recommendation_text example_df_spread =
       Inr (allocation_section example_df_spread @ remaining_sections example_df_spread)"
    by simp
  from one two show ?thesis
    unfolding example_allocation_section example_remaining_sections
      example_allocation_section_spread example_remaining_sections_spread
    using example_sector_percent example_sector_percent_spread by simp
qed

subsection \<open>Formatting with two decimals\<close>

lemma digit_char_isdigit: "0 \<le> d \<Longrightarrow> d < 10 \<Longrightarrow> py_isdigit (char_of (48 + d :: int))"
  by (simp add: py_isdigit_def)

lemma digit_char_val: "0 \<le> d \<Longrightarrow> d < 10 \<Longrightarrow> digit_val (char_of (48 + d :: int)) = d"
  by (simp add: digit_val_def)

lemma digits_val_snoc: "digits_val (xs @ [c]) = 10 * digits_val xs + digit_val c"
  by (simp add: digits_val_def)

lemma digits_of_props:
  "0 \<le> n \<Longrightarrow>
   digits_of n \<noteq> [] \<and> list_all py_isdigit (digits_of n) \<and> digits_val (digits_of n) = n"
proof (induction n rule: digits_of.induct)
  case (1 n)
  show ?case
  proof (cases "n < 10")
    case True
    with 1 show ?thesis
      by (simp add: digits_of.simps [of n] digit_char_isdigit digit_char_val digits_val_def)
  next
    case False
    with 1 have "0 \<le> n div 10" by simp
    with 1 False have ih: "digits_of (n div 10) \<noteq> []"
      "list_all py_isdigit (digits_of (n div 10))" "digits_val (digits_of (n div 10)) = n div 10"
      by simp_all
    have "0 \<le> n mod 10" "n mod 10 < 10" by simp_all
    with False ih show ?thesis
      by (simp add: digits_of.simps [of n] digit_char_isdigit digit_char_val digits_val_snoc)
  qed
qed

lemma digits_of_length:
  assumes "0 \<le> m" and "m < 100"
  shows "length (digits_of m) = (if m < 10 then 1 else 2)"
proof (cases "m < 10")
  case True
  then show ?thesis by (simp add: digits_of.simps [of m])
next
  case False
  with assms have "m div 10 < 10" by simp
  with False show ?thesis
    by (simp add: digits_of.simps [of m] digits_of.simps [of "m div 10"])
qed

lemma digits_val_zeros: "digits_val (replicate k CHR ''0'' @ xs) = digits_val xs"
  by (induction k) (simp_all add: digits_val_def digit_val_def)

lemma isdigit_zero: "py_isdigit CHR ''0''"
  by (simp add: py_isdigit_def)

lemma round_half_even_near: "\<bar>of_int (round_half_even x) - x\<bar> \<le> 1 / 2"
proof -
  have "of_int \<lfloor>x\<rfloor> \<le> x" "x < of_int \<lfloor>x\<rfloor> + 1"
    by linarith+
  then show ?thesis
    by (auto simp: round_half_even_def Let_def abs_le_iff)
qed

lemma round_half_even_nonneg: "0 \<le> x \<Longrightarrow> 0 \<le> round_half_even x"
  by (auto simp: round_half_even_def Let_def)

lemma format_fixed_two:
  "\<exists>n ip fp. format_fixed 2 (Fin q) = (if q < 0 then ''-'' else []) @ ip @ ''.'' @ fp
     \<and> \<bar>of_int n - \<bar>q\<bar> * 100\<bar> \<le> 1 / 2
     \<and> ip \<noteq> [] \<and> list_all py_isdigit ip \<and> length fp = 2 \<and> list_all py_isdigit fp
     \<and> digits_val ip * 100 + digits_val fp = n"
proof -
  define n where "n = round_half_even (\<bar>q\<bar> * 100)"
  define ip where "ip = digits_of (n div 100)"
  define m where "m = n mod 100"
  define fp where "fp = replicate (2 - length (digits_of m)) CHR ''0'' @ digits_of m"
  have n0: "0 \<le> n"
    unfolding n_def by (rule round_half_even_nonneg) simp
  then have d: "0 \<le> n div 100" by simp
  have m: "0 \<le> m" "m < 100" by (simp_all add: m_def)
  have f: "format_fixed 2 (Fin q) = (if q < 0 then ''-'' else []) @ ip @ ''.'' @ fp"
    by (simp add: format_fixed_def Let_def n_def ip_def fp_def m_def)
  have near: "\<bar>of_int n - \<bar>q\<bar> * 100\<bar> \<le> 1 / 2"
    unfolding n_def by (rule round_half_even_near)
  have ipp: "ip \<noteq> []" "list_all py_isdigit ip" "digits_val ip = n div 100"
    using digits_of_props [OF d] by (simp_all add: ip_def)
  have len: "length fp = 2"
    using digits_of_length [OF m] by (simp add: fp_def)
  have dig: "list_all py_isdigit fp"
    using digits_of_props [OF m(1)] by (auto simp: fp_def list_all_iff isdigit_zero)
  have val: "digits_val fp = m"
    using digits_of_props [OF m(1)] by (simp add: fp_def digits_val_zeros)
  have "digits_val ip * 100 + digits_val fp = n"
    by (simp add: ipp val m_def)
  with f near ipp len dig show ?thesis by blast
qed

subsection \<open>The buy opportunities\<close>

lemma buy_header_nonempty: "buy_header \<noteq> []"
  by (simp add: buy_header_def thumbs_up_def)

lemma compra_df_empty_iff:
  "compra_df df = [] \<longleftrightarrow> \<not> (\<exists>a \<in> set df. a_recomendacao a = Some ''Compra'')"
proof -
  have "compra_df df = [] \<longleftrightarrow> filter (\<lambda>a. a_recomendacao a = Some ''Compra'') df = []"
    using length_sort_values_desc
      [of a_potencial "filter (\<lambda>a. a_recomendacao a = Some ''Compra'') df"]
    by (metis compra_df_def length_0_conv)
  then show ?thesis
    by (simp add: filter_empty_conv)
qed

lemma printed_rows_mset:
  "mset (printed_rows df) =
     filter_mset (\<lambda>a. a_recomendacao a = Some ''Compra'' \<and> fl_less (Fin 0) (a_potencial a))
       (mset df)"
  by (simp add: printed_rows_def compra_df_def mset_sort_values_desc filter_filter_mset)

lemma printed_rows_sorted:
  "sorted_wrt (\<lambda>a b. \<not> fl_less (a_potencial a) (a_potencial b)) (printed_rows df)"
proof -
  define c where "c = filter (\<lambda>a. a_recomendacao a = Some ''Compra'') df"
  have "filter (\<lambda>row. fl_less (Fin 0) (a_potencial row)) (filter (\<lambda>x. isna (a_potencial x)) c) = []"
    by (auto simp: filter_empty_conv isna_def)
  then have "printed_rows df =
      filter (\<lambda>row. fl_less (Fin 0) (a_potencial row))
        (rev (argsort_stable a_potencial (rev (filter (\<lambda>x. \<not> isna (a_potencial x)) c))))"
    by (simp add: printed_rows_def compra_df_def sort_values_desc_def c_def)
  then show ?thesis
    using sorted_desc_values [of a_potencial c] by (simp add: sorted_wrt_filter)
qed

lemma buy_block_printed:
  "buy_block df =
     (if \<exists>a \<in> set df. a_recomendacao a = Some ''Compra''
      then buy_header @ concat (map buy_line (printed_rows df)) else [])"
  using compra_df_empty_iff [of df]
  by (simp add: buy_block_def printed_rows_def concat_map_if)

lemma buy_line_text:
  "buy_line =
     (\<lambda>row. ''- **'' @ a_ticker row @ '' ('' @
       (case a_setor row of None \<Rightarrow> ''nan'' | Some s \<Rightarrow> s) @
       '')'' @ '':** Mantemos uma vis'' @ a_tilde @
       ''o positiva para o ativo, com um potencial de valoriza'' @
       c_cedilla @ a_tilde @ ''o de **'' @
       format_fixed 2 (a_potencial row) @ ''%** em rela'' @ c_cedilla @
       a_tilde @ ''o ao nosso pre'' @ c_cedilla @ ''o-alvo de R$ '' @
       format_fixed 2 (a_preco_alvo row) @ ''.\<newline>'')"
  by (rule ext) (simp add: buy_line_def str_of_setor_def)

lemma example_buy_block:
  "buy_block example_df =
     [CHR 0xF0, CHR 0x9F, CHR 0x91, CHR 0x8D] @
       '' **Pontos Fortes e Oportunidades (Recomenda'' @
       [CHR 0xC3, CHR 0xA7, CHR 0xC3, CHR 0xA3] @ ''o de Compra):**\<newline>'' @
       ''- **CCC3 (Z):** Mantemos uma vis'' @ [CHR 0xC3, CHR 0xA3] @
       ''o positiva para o ativo, com um potencial de valoriza'' @
       [CHR 0xC3, CHR 0xA7, CHR 0xC3, CHR 0xA3] @ ''o de **225.00%** em rela'' @
       [CHR 0xC3, CHR 0xA7, CHR 0xC3, CHR 0xA3] @ ''o ao nosso pre'' @
       [CHR 0xC3, CHR 0xA7] @ ''o-alvo de R$ 13.00.\<newline>'' @
       ''- **AAA3 (X):** Mantemos uma vis'' @ [CHR 0xC3, CHR 0xA3] @
       ''o positiva para o ativo, com um potencial de valoriza'' @
       [CHR 0xC3, CHR 0xA7, CHR 0xC3, CHR 0xA3] @ ''o de **170.00%** em rela'' @
       [CHR 0xC3, CHR 0xA7, CHR 0xC3, CHR 0xA3] @ ''o ao nosso pre'' @
       [CHR 0xC3, CHR 0xA7] @ ''o-alvo de R$ 13.50.\<newline>''"
  by code_simp

lemma example_buy_block_spread: "buy_block example_df_spread = []"
  by code_simp

text \<open>
  Claim C9.  The block of buy opportunities is in the text, after the allocation section,
  and it is not empty exactly when a row has the label \<open>Compra\<close>.  It then is the header
  followed by one line for each row with that label and a positive \<open>Potencial (%)\<close>, and
  for no other row, the lines by descending \<open>Potencial (%)\<close>.  A line shows the ticker,
  the sector, \<open>Potencial (%)\<close> and the target price, the two numbers with two decimals:
  the sign, the digits of the integer part, a point and two digits, which read as the
  number of hundredths nearest to the value.
\<close>

theorem buy_block_spec:
  "(buy_block df \<noteq> [] \<longleftrightarrow> (\<exists>a \<in> set df. a_recomendacao a = Some ''Compra''))
   \<and> (\<exists>rows.
         buy_block df =
           (if \<exists>a \<in> set df. a_recomendacao a = Some ''Compra''
            then thumbs_up @ '' **Pontos Fortes e Oportunidades (Recomenda'' @ c_cedilla @
              a_tilde @ ''o de Compra):**\<newline>'' @
                 concat
                   (map (\<lambda>row. ''- **'' @ a_ticker row @ '' ('' @
                     (case a_setor row of None \<Rightarrow> ''nan'' | Some s \<Rightarrow> s) @
                     '')'' @ '':** Mantemos uma vis'' @ a_tilde @
                     ''o positiva para o ativo, com um potencial de valoriza'' @
                     c_cedilla @ a_tilde @ ''o de **'' @
                     format_fixed 2 (a_potencial row) @ ''%** em rela'' @ c_cedilla @
                     a_tilde @ ''o ao nosso pre'' @ c_cedilla @ ''o-alvo de R$ '' @
                     format_fixed 2 (a_preco_alvo row) @ ''.\<newline>'')
                      rows)
            else [])
         \<and> mset rows =
             filter_mset (\<lambda>a. a_recomendacao a = Some ''Compra'' \<and> fl_less (Fin 0) (a_potencial a))
               (mset df)
         \<and> sorted_wrt (\<lambda>a b. \<not> fl_less (a_potencial a) (a_potencial b)) rows)
   \<and> (\<forall>q. \<exists>n ip fp.
         format_fixed 2 (Fin q) = (if q < 0 then ''-'' else []) @ ip @ ''.'' @ fp
         \<and> \<bar>of_int n - \<bar>q\<bar> * 100\<bar> \<le> 1 / 2
         \<and> ip \<noteq> [] \<and> list_all py_isdigit ip \<and> length fp = 2 \<and> list_all py_isdigit fp
         \<and> digits_val ip * 100 + digits_val fp = n)
   \<and> (\<forall>text. generate_recommendation_text df = Inr text \<longrightarrow>
         (\<exists>before. text = before @ ''\<newline>'' @ buy_block df @ ''\<newline>'' @ attention_block df
                            @ ''\<newline>'' @ closing))"
proof (intro conjI)
  show "buy_block df \<noteq> [] \<longleftrightarrow> (\<exists>a \<in> set df. a_recomendacao a = Some ''Compra'')"
    using buy_header_nonempty by (simp add: buy_block_printed)
  have "buy_block df =
           (if \<exists>a \<in> set df. a_recomendacao a = Some ''Compra''
            then thumbs_up @ '' **Pontos Fortes e Oportunidades (Recomenda'' @ c_cedilla @
              a_tilde @ ''o de Compra):**\<newline>'' @
                 concat
                   (map (\<lambda>row. ''- **'' @ a_ticker row @ '' ('' @
                     (case a_setor row of None \<Rightarrow> ''nan'' | Some s \<Rightarrow> s) @
                     '')'' @ '':** Mantemos uma vis'' @ a_tilde @
                     ''o positiva para o ativo, com um potencial de valoriza'' @
                     c_cedilla @ a_tilde @ ''o de **'' @
                     format_fixed 2 (a_potencial row) @ ''%** em rela'' @ c_cedilla @
                     a_tilde @ ''o ao nosso pre'' @ c_cedilla @ ''o-alvo de R$ '' @
                     format_fixed 2 (a_preco_alvo row) @ ''.\<newline>'')
                      (printed_rows df))
            else [])"
    unfolding buy_block_printed buy_line_text by (simp add: buy_header_def)
  then show "\<exists>rows.
         buy_block df =
           (if \<exists>a \<in> set df. a_recomendacao a = Some ''Compra''
            then thumbs_up @ '' **Pontos Fortes e Oportunidades (Recomenda'' @ c_cedilla @
              a_tilde @ ''o de Compra):**\<newline>'' @
                 concat
                   (map (\<lambda>row. ''- **'' @ a_ticker row @ '' ('' @
                     (case a_setor row of None \<Rightarrow> ''nan'' | Some s \<Rightarrow> s) @
                     '')'' @ '':** Mantemos uma vis'' @ a_tilde @
                     ''o positiva para o ativo, com um potencial de valoriza'' @
                     c_cedilla @ a_tilde @ ''o de **'' @
                     format_fixed 2 (a_potencial row) @ ''%** em rela'' @ c_cedilla @
                     a_tilde @ ''o ao nosso pre'' @ c_cedilla @ ''o-alvo de R$ '' @
                     format_fixed 2 (a_preco_alvo row) @ ''.\<newline>'')
                      rows)
            else [])
         \<and> mset rows =
             filter_mset (\<lambda>a. a_recomendacao a = Some ''Compra'' \<and> fl_less (Fin 0) (a_potencial a))
               (mset df)
         \<and> sorted_wrt (\<lambda>a b. \<not> fl_less (a_potencial a) (a_potencial b)) rows"
    using printed_rows_mset [of df] printed_rows_sorted [of df] by blast
  show "\<forall>q. \<exists>n ip fp.
         format_fixed 2 (Fin q) = (if q < 0 then ''-'' else []) @ ip @ ''.'' @ fp
         \<and> \<bar>of_int n - \<bar>q\<bar> * 100\<bar> \<le> 1 / 2
         \<and> ip \<noteq> [] \<and> list_all py_isdigit ip \<and> length fp = 2 \<and> list_all py_isdigit fp
         \<and> digits_val ip * 100 + digits_val fp = n"
    using format_fixed_two by blast
  show "\<forall>text. generate_recommendation_text df = Inr text \<longrightarrow>
         (\<exists>before. text = before @ ''\<newline>'' @ buy_block df @ ''\<newline>'' @ attention_block df
                            @ ''\<newline>'' @ closing)"
    by (auto simp: generate_recommendation_text_def remaining_sections_def split: sum.splits)
qed

theorem buy_block_spec_witness:
  "(\<exists>a \<in> set example_df. a_recomendacao a = Some ''Compra'')
   \<and> buy_block example_df \<noteq> []
   \<and> buy_block example_df =
       [CHR 0xF0, CHR 0x9F, CHR 0x91, CHR 0x8D] @
         '' **Pontos Fortes e Oportunidades (Recomenda'' @
         [CHR 0xC3, CHR 0xA7, CHR 0xC3, CHR 0xA3] @ ''o de Compra):**\<newline>'' @
         ''- **CCC3 (Z):** Mantemos uma vis'' @ [CHR 0xC3, CHR 0xA3] @
         ''o positiva para o ativo, com um potencial de valoriza'' @
         [CHR 0xC3, CHR 0xA7, CHR 0xC3, CHR 0xA3] @ ''o de **225.00%** em rela'' @
         [CHR 0xC3, CHR 0xA7, CHR 0xC3, CHR 0xA3] @ ''o ao nosso pre'' @
         [CHR 0xC3, CHR 0xA7] @ ''o-alvo de R$ 13.00.\<newline>'' @
         ''- **AAA3 (X):** Mantemos uma vis'' @ [CHR 0xC3, CHR 0xA3] @
         ''o positiva para o ativo, com um potencial de valoriza'' @
         [CHR 0xC3, CHR 0xA7, CHR 0xC3, CHR 0xA3] @ ''o de **170.00%** em rela'' @
         [CHR 0xC3, CHR 0xA7, CHR 0xC3, CHR 0xA3] @ ''o ao nosso pre'' @
         [CHR 0xC3, CHR 0xA7] @ ''o-alvo de R$ 13.50.\<newline>''
   \<and> buy_block example_df_spread = []"
proof -
  have c: "\<exists>a \<in> set example_df. a_recomendacao a = Some ''Compra''"
    by (simp add: example_df_def example_row_1_def)
  have n: "\<not> (\<exists>a \<in> set example_df_spread. a_recomendacao a = Some ''Compra'')"
    by (simp add: example_df_spread_def example_row_4_def example_row_5_def example_row_6_def)
  from buy_block_spec [of example_df] c have "buy_block example_df \<noteq> []"
    by blast
  moreover from buy_block_spec [of example_df_spread] n have "buy_block example_df_spread = []"
    by blast
  ultimately show ?thesis
    using c example_buy_block by blast
qed

end
